theory Spec2Isabelle
  imports Complex_Main "HOL-Library.Sublist"
begin

section \<open>Data model (src/app/types.ts)\<close>

text \<open>
  An optional property of a TypeScript interface is an \<open>option\<close>: \<open>None\<close> is the absent
  (or \<open>undefined\<close>) property, which \<open>JSON.stringify\<close> leaves out of a response. Byte counts,
  the quality and clock readings are integers; the compression ratio is a double, given by
  its value, a rational (see the numbers below).
\<close>

record ImageMetadata =
  title :: "string option"
  description :: "string option"
  author :: "string option"
  copyright :: "string option"
  keywords_list :: "string list option"
  customFields :: "(string \<times> string) list option"

datatype target_format = jpeg | png | webp | avif | original

text \<open>
  The process request's settings are \<open>CompressionSettings & { metadata: ImageMetadata }\<close>;
  the added property is the field \<open>settings_metadata\<close> here, \<open>metadata\<close> being the field of
  \<open>ImageFile\<close> below.
\<close>

record CompressionSettings =
  quality :: int
  targetFormat :: target_format
  stripMetadata :: "bool option"
  preserveMetadata :: "bool option"
  resize :: "(int option \<times> int option) option"
  settings_metadata :: ImageMetadata

datatype image_status = uploaded | queued | processing | completed | failed

text \<open>The property \<open>id\<close> of the source is the field \<open>image_id\<close>.\<close>

record ImageFile =
  image_id :: string
  originalName :: string
  originalSize :: int
  originalFormat :: string
  compressedSize :: "int option"
  compressionRatio :: "rat option"
  status :: image_status
  metadata :: ImageMetadata
  originalMetadata :: "(string \<times> string) list option"
  processingSettings :: "CompressionSettings option"
  downloadUrl :: "string option"
  errorMessage :: "string option"
  processingTimeMs :: "int option"
  blobUrl :: "string option"

text \<open>
  \<open>Partial<ImageFile>\<close>, as the process handler fills it: a property that was assigned is
  \<open>Some\<close>. The handler assigns these eight properties and no other.
\<close>

record PartialImageFile =
  upd_status :: "image_status option"
  upd_metadata :: "ImageMetadata option"
  upd_compressedSize :: "int option"
  upd_compressionRatio :: "rat option"
  upd_downloadUrl :: "string option"
  upd_errorMessage :: "string option"
  upd_processingTimeMs :: "int option"
  upd_processingSettings :: "CompressionSettings option"

text \<open>The object spread \<open>{ ...imageFile, ...updatedImageFile }\<close>: an assigned property wins.\<close>

definition spread_merge :: "ImageFile \<Rightarrow> PartialImageFile \<Rightarrow> ImageFile" where
  "spread_merge imageFile updatedImageFile =
     imageFile
       \<lparr> compressedSize :=
           (case upd_compressedSize updatedImageFile of
              None \<Rightarrow> compressedSize imageFile | Some v \<Rightarrow> Some v),
         compressionRatio :=
           (case upd_compressionRatio updatedImageFile of
              None \<Rightarrow> compressionRatio imageFile | Some v \<Rightarrow> Some v),
         status :=
           (case upd_status updatedImageFile of
              None \<Rightarrow> status imageFile | Some v \<Rightarrow> v),
         metadata :=
           (case upd_metadata updatedImageFile of
              None \<Rightarrow> metadata imageFile | Some v \<Rightarrow> v),
         processingSettings :=
           (case upd_processingSettings updatedImageFile of
              None \<Rightarrow> processingSettings imageFile | Some v \<Rightarrow> Some v),
         downloadUrl :=
           (case upd_downloadUrl updatedImageFile of
              None \<Rightarrow> downloadUrl imageFile | Some v \<Rightarrow> Some v),
         errorMessage :=
           (case upd_errorMessage updatedImageFile of
              None \<Rightarrow> errorMessage imageFile | Some v \<Rightarrow> Some v),
         processingTimeMs :=
           (case upd_processingTimeMs updatedImageFile of
              None \<Rightarrow> processingTimeMs imageFile | Some v \<Rightarrow> Some v) \<rparr>"

section \<open>JavaScript helpers\<close>

text \<open>A thrown value: an \<open>Error\<close> with its message, or a value that is no \<open>Error\<close>.\<close>

datatype exn = Error (message: string) | NonError

text \<open>\<open>s.split(c)\<close> for a one-character separator: never empty, \<open>''''.split(c)\<close> is \<open>['''']\<close>.\<close>

fun split_on :: "char \<Rightarrow> string \<Rightarrow> string list" where
  "split_on c [] = [[]]"
| "split_on c (x # xs) =
     (if x = c then [] # split_on c xs
      else (case split_on c xs of
              [] \<Rightarrow> [[x]]
            | y # ys \<Rightarrow> (x # y) # ys))"

text \<open>\<open>xs[i]\<close>: \<open>undefined\<close> out of range.\<close>

definition index_opt :: "'a list \<Rightarrow> nat \<Rightarrow> 'a option" where
  "index_opt xs i = (if i < length xs then Some (xs ! i) else None)"

text \<open>A string property in a condition: absent and empty are falsy.\<close>

definition truthy :: "string option \<Rightarrow> bool" where
  "truthy v = (case v of None \<Rightarrow> False | Some s \<Rightarrow> s \<noteq> [])"

text \<open>A string or \<open>undefined\<close> inside a template literal.\<close>

definition template_string :: "string option \<Rightarrow> string" where
  "template_string v = (case v of None \<Rightarrow> ''undefined'' | Some s \<Rightarrow> s)"

text \<open>\<open>xs.join(sep)\<close>.\<close>

fun join :: "string \<Rightarrow> string list \<Rightarrow> string" where
  "join sep [] = []"
| "join sep [x] = x"
| "join sep (x # y # ys) = x @ sep @ join sep (y # ys)"

subsection \<open>Numbers\<close>

text \<open>
  A JavaScript number is an IEEE 754 binary64 value. A finite one is modelled by its value,
  a rational, and \<open>/\<close>, \<open>-\<close> and \<open>*\<close> give the double nearest to the exact result, a tie
  going to the even mantissa: 53 bits of mantissa at the exponent of the exact result, and
  the spacing \<open>2^-1074\<close> below \<open>2^-1022\<close>. Results of magnitude \<open>2^1024\<close> and more
  (\<open>Infinity\<close> in JavaScript) are not modelled; the handler's one computation in doubles
  divides a byte length by a positive integer, subtracts the quotient from 1 and multiplies
  by 100.
\<close>

fun bit_length :: "nat \<Rightarrow> nat" where
  "bit_length n = (if n = 0 then 0 else Suc (bit_length (n div 2)))"

declare bit_length.simps [simp del]

text \<open>The exponent \<open>e\<close> of \<open>x > 0\<close>: \<open>2^e \<le> x < 2^(e+1)\<close>.\<close>

definition floor_log2 :: "rat \<Rightarrow> int" where
  "floor_log2 x =
     (if 1 \<le> x then int (bit_length (nat \<lfloor>x\<rfloor>)) - 1
      else - int (bit_length (nat (\<lceil>1 / x\<rceil> - 1))))"

definition pow2 :: "int \<Rightarrow> rat" where
  "pow2 k = (if 0 \<le> k then 2 ^ nat k else 1 / 2 ^ nat (- k))"

text \<open>The nearest integer, the even one of two that are as near.\<close>

definition round_half_even :: "rat \<Rightarrow> int" where
  "round_half_even x =
     (if x - of_int \<lfloor>x\<rfloor> < 1 / 2 then \<lfloor>x\<rfloor>
      else if 1 / 2 < x - of_int \<lfloor>x\<rfloor> then \<lfloor>x\<rfloor> + 1
      else if even \<lfloor>x\<rfloor> then \<lfloor>x\<rfloor> else \<lfloor>x\<rfloor> + 1)"

text \<open>The double nearest to \<open>x\<close>.\<close>

definition binary64 :: "rat \<Rightarrow> rat" where
  "binary64 x =
     (if x = 0 then 0
      else of_int (round_half_even (x / pow2 (max (floor_log2 \<bar>x\<bar>) (- 1022) - 52)))
             * pow2 (max (floor_log2 \<bar>x\<bar>) (- 1022) - 52))"

definition js_divide :: "rat \<Rightarrow> rat \<Rightarrow> rat" where
  "js_divide x y = binary64 (x / y)"

definition js_minus :: "rat \<Rightarrow> rat \<Rightarrow> rat" where
  "js_minus x y = binary64 (x - y)"

definition js_times :: "rat \<Rightarrow> rat \<Rightarrow> rat" where
  "js_times x y = binary64 (x * y)"

section \<open>Process handler (POST of the process route, src/unnamed/part_000)\<close>

subsection \<open>What the handler calls outside the repository\<close>

text \<open>
  The handler's collaborators are parameters of the model: \<open>fetch\<close>, the \<open>sharp\<close> codec
  library, the blob store's \<open>put\<close> and the clock. Each call either returns or throws
  (\<open>Inl\<close>, or \<open>Some\<close> for a call whose value is the codec instance itself). The handler's
  calls are recorded in the order it makes them.
\<close>

type_synonym buffer = "nat list"

record fetch_response =
  ok :: bool
  statusText :: string
  arrayBuffer :: "exn + buffer"

record put_blob_result =
  url :: string
  pathname :: string

record put_options =
  access :: string
  contentType :: string
  cacheControl :: "string option"
  cacheControlMaxAge :: "nat option"

text \<open>The \<open>IFD0\<close> tags of \<open>sharp.WriteableMetadata.exif\<close> that the handler writes.\<close>

record exif_IFD0 =
  ImageDescription :: "string option"
  UserComment :: "string option"

datatype output_options = JpegOptions int | PngOptions int

text \<open>A \<open>sharp\<close> instance: its input and what the builder calls have set on it.\<close>

record sharp_instance =
  input_buffer :: buffer
  output_format :: "output_options option"
  embedded :: "exif_IFD0 option"

datatype call =
    CallFetch string
  | CallSharp buffer
  | CallJpeg int
  | CallPng int
  | CallWithMetadata exif_IFD0
  | CallToBuffer sharp_instance
  | CallPut string buffer put_options

record process_env =
  date_now_start :: int
  date_now_end :: int
  fetch :: "string \<Rightarrow> exn + fetch_response"
  sharp :: "buffer \<Rightarrow> exn option"
  sharp_jpeg :: "int \<Rightarrow> exn option"
  sharp_png :: "int \<Rightarrow> exn option"
  sharp_withMetadata :: "exif_IFD0 \<Rightarrow> exn option"
  sharp_toBuffer :: "sharp_instance \<Rightarrow> exn + buffer"
  put :: "string \<Rightarrow> buffer \<Rightarrow> put_options \<Rightarrow> exn + put_blob_result"

subsection \<open>The steps of the \<open>try\<close> block\<close>

definition MVP_PROCESS_FORMATS :: "string list" where
  "MVP_PROCESS_FORMATS = [''jpeg'', ''png'']"

definition fetchBlob :: "process_env \<Rightarrow> string \<Rightarrow> exn + buffer" where
  "fetchBlob env u =
     (case fetch env u of
        Inl e \<Rightarrow> Inl e
      | Inr response \<Rightarrow>
          if \<not> ok response
          then Inl (Error (''Failed to fetch blob: '' @ statusText response))
          else arrayBuffer response)"

definition format_name :: "target_format \<Rightarrow> string" where
  "format_name t =
     (case t of jpeg \<Rightarrow> ''jpeg'' | png \<Rightarrow> ''png'' | webp \<Rightarrow> ''webp''
      | avif \<Rightarrow> ''avif'' | original \<Rightarrow> ''original'')"

text \<open>Lines 41 to 43: the local \<open>targetFormat\<close>; \<open>None\<close> is \<open>undefined\<close>.\<close>

definition effective_targetFormat :: "ImageFile \<Rightarrow> CompressionSettings \<Rightarrow> string option" where
  "effective_targetFormat imageFile settings =
     (if targetFormat settings = original
      then index_opt (split_on CHR ''/'' (originalFormat imageFile)) 1
      else Some (format_name (targetFormat settings)))"

definition unsupported_format_message :: "string option \<Rightarrow> string" where
  "unsupported_format_message tf =
     ''Unsupported target format for MVP: '' @ template_string tf
       @ ''. Only jpeg and png are supported initially.''"

text \<open>Line 54: \<open>Math.round\<close> rounds a half up, as \<open>round\<close> does.\<close>

definition pngCompressionLevel :: "int \<Rightarrow> int" where
  "pngCompressionLevel q = max 0 (min 9 (round ((100 - of_int q) / (10 :: rat))))"

text \<open>Lines 50 to 56: the encoder's options, by the target format.\<close>

definition apply_format ::
  "process_env \<Rightarrow> CompressionSettings \<Rightarrow> string \<Rightarrow> sharp_instance
     \<Rightarrow> call list \<times> (exn + sharp_instance)" where
  "apply_format env settings tf sharpInstance =
     (if tf = ''jpeg'' then
        ([CallJpeg (quality settings)],
         case sharp_jpeg env (quality settings) of
           Some e \<Rightarrow> Inl e
         | None \<Rightarrow> Inr (sharpInstance\<lparr>output_format := Some (JpegOptions (quality settings))\<rparr>))
      else if tf = ''png'' then
        ([CallPng (pngCompressionLevel (quality settings))],
         case sharp_png env (pngCompressionLevel (quality settings)) of
           Some e \<Rightarrow> Inl e
         | None \<Rightarrow>
             Inr (sharpInstance
                    \<lparr>output_format := Some (PngOptions (pngCompressionLevel (quality settings)))\<rparr>))
      else ([], Inr sharpInstance))"

text \<open>Lines 60 to 71: \<open>None\<close> is the object without an \<open>exif\<close> key.\<close>

definition metadataToEmbed :: "CompressionSettings \<Rightarrow> exif_IFD0 option" where
  "metadataToEmbed settings =
     (let none = \<lparr>ImageDescription = None, UserComment = None\<rparr>;
          m0 = None;
          m1 = (if truthy (title (settings_metadata settings))
                then Some ((case m0 of None \<Rightarrow> none | Some i \<Rightarrow> i)
                             \<lparr>ImageDescription := title (settings_metadata settings)\<rparr>)
                else m0);
          m2 = (if truthy (description (settings_metadata settings))
                then Some ((case m1 of None \<Rightarrow> none | Some i \<Rightarrow> i)
                             \<lparr>UserComment := description (settings_metadata settings)\<rparr>)
                else m1)
      in m2)"

text \<open>Lines 74 to 78.\<close>

definition apply_metadata ::
  "process_env \<Rightarrow> CompressionSettings \<Rightarrow> sharp_instance
     \<Rightarrow> call list \<times> (exn + sharp_instance)" where
  "apply_metadata env settings sharpInstance =
     (case metadataToEmbed settings of
        None \<Rightarrow> ([], Inr sharpInstance)
      | Some m \<Rightarrow>
          ([CallWithMetadata m],
           case sharp_withMetadata env m of
             Some e \<Rightarrow> Inl e
           | None \<Rightarrow> Inr (sharpInstance\<lparr>embedded := Some m\<rparr>)))"

text \<open>Lines 50 to 78: the builder calls on the instance made at line 34.\<close>

definition configure ::
  "process_env \<Rightarrow> CompressionSettings \<Rightarrow> buffer \<Rightarrow> string
     \<Rightarrow> call list \<times> (exn + sharp_instance)" where
  "configure env settings imageBuffer tf =
     (case apply_format env settings tf
             \<lparr>input_buffer = imageBuffer, output_format = None, embedded = None\<rparr> of
        (cs1, Inl e) \<Rightarrow> (cs1, Inl e)
      | (cs1, Inr inst1) \<Rightarrow>
          (case apply_metadata env settings inst1 of
             (cs2, r) \<Rightarrow> (cs1 @ cs2, r)))"

text \<open>Line 45: \<open>MVP_PROCESS_FORMATS.includes(targetFormat)\<close>.\<close>

definition supported :: "string option \<Rightarrow> bool" where
  "supported tf = (case tf of None \<Rightarrow> False | Some f \<Rightarrow> f \<in> set MVP_PROCESS_FORMATS)"

text \<open>
  Lines 30 to 78: everything up to the assignment of \<open>updatedImageFile.metadata\<close>. The
  result is the configured instance and the target format, or what was thrown.
\<close>

definition prepare ::
  "process_env \<Rightarrow> ImageFile \<Rightarrow> CompressionSettings \<Rightarrow> string
     \<Rightarrow> call list \<times> (exn + sharp_instance \<times> string)" where
  "prepare env imageFile settings blob_url =
     (case fetchBlob env blob_url of
        Inl e \<Rightarrow> ([CallFetch blob_url], Inl e)
      | Inr imageBuffer \<Rightarrow>
          (case sharp env imageBuffer of
             Some e \<Rightarrow> ([CallFetch blob_url, CallSharp imageBuffer], Inl e)
           | None \<Rightarrow>
               (let tf = effective_targetFormat imageFile settings in
                if \<not> supported tf then
                  ([CallFetch blob_url, CallSharp imageBuffer],
                   Inl (Error (unsupported_format_message tf)))
                else
                  (case configure env settings imageBuffer (the tf) of
                     (cs, Inl e) \<Rightarrow>
                       ([CallFetch blob_url, CallSharp imageBuffer] @ cs, Inl e)
                   | (cs, Inr sharpInstance) \<Rightarrow>
                       ([CallFetch blob_url, CallSharp imageBuffer] @ cs,
                        Inr (sharpInstance, the tf))))))"

text \<open>Lines 81 to 85.\<close>

definition merged_metadata :: "ImageFile \<Rightarrow> CompressionSettings \<Rightarrow> ImageMetadata" where
  "merged_metadata imageFile settings =
     (metadata imageFile)
       \<lparr> title := title (settings_metadata settings),
         description := description (settings_metadata settings) \<rparr>"

text \<open>Lines 88 to 96: encode, then store.\<close>

definition processed_put_options :: "string \<Rightarrow> put_options" where
  "processed_put_options tf =
     \<lparr> access = ''public'', contentType = ''image/'' @ tf, cacheControl = None,
       cacheControlMaxAge = Some 3600 \<rparr>"

definition encode_and_store ::
  "process_env \<Rightarrow> ImageFile \<Rightarrow> sharp_instance \<Rightarrow> string
     \<Rightarrow> call list \<times> (exn + buffer \<times> put_blob_result)" where
  "encode_and_store env imageFile sharpInstance tf =
     (case sharp_toBuffer env sharpInstance of
        Inl e \<Rightarrow> ([CallToBuffer sharpInstance], Inl e)
      | Inr processedBuffer \<Rightarrow>
          (let processedFileName = ''processed/'' @ image_id imageFile @ ''.'' @ tf;
               cs = [CallToBuffer sharpInstance,
                     CallPut processedFileName processedBuffer (processed_put_options tf)]
           in case put env processedFileName processedBuffer (processed_put_options tf) of
                Inl e \<Rightarrow> (cs, Inl e)
              | Inr processedBlob \<Rightarrow> (cs, Inr (processedBuffer, processedBlob))))"

text \<open>Lines 102 to 104, in doubles.\<close>

definition compression_ratio :: "int \<Rightarrow> int \<Rightarrow> rat" where
  "compression_ratio byteLength original_size =
     (if original_size > 0
      then js_times (js_minus 1 (js_divide (of_int byteLength) (of_int original_size))) 100
      else 0)"

subsection \<open>The handler\<close>

definition empty_update :: PartialImageFile where
  "empty_update =
     \<lparr> upd_status = None, upd_metadata = None, upd_compressedSize = None,
       upd_compressionRatio = None, upd_downloadUrl = None, upd_errorMessage = None,
       upd_processingTimeMs = None, upd_processingSettings = None \<rparr>"

text \<open>
  The \<open>try\<close> block: \<open>updatedImageFile\<close> as the block leaves it, the calls made, and whether
  the block ended normally or threw.
\<close>

definition try_block ::
  "process_env \<Rightarrow> ImageFile \<Rightarrow> CompressionSettings \<Rightarrow> string
     \<Rightarrow> PartialImageFile \<times> call list \<times> (exn + unit)" where
  "try_block env imageFile settings blob_url =
     (let u0 = empty_update\<lparr>upd_status := Some processing\<rparr> in
      case prepare env imageFile settings blob_url of
        (cs1, Inl e) \<Rightarrow> (u0, cs1, Inl e)
      | (cs1, Inr (sharpInstance, tf)) \<Rightarrow>
          (let u1 = u0\<lparr>upd_metadata := Some (merged_metadata imageFile settings)\<rparr> in
           case encode_and_store env imageFile sharpInstance tf of
             (cs2, Inl e) \<Rightarrow> (u1, cs1 @ cs2, Inl e)
           | (cs2, Inr (processedBuffer, processedBlob)) \<Rightarrow>
               (u1\<lparr> upd_status := Some completed,
                     upd_compressedSize := Some (int (length processedBuffer)),
                     upd_compressionRatio :=
                       Some (compression_ratio (int (length processedBuffer))
                               (originalSize imageFile)),
                     upd_downloadUrl := Some (url processedBlob),
                     upd_processingTimeMs := Some (date_now_end env - date_now_start env),
                     upd_processingSettings := Some settings \<rparr>,
                cs1 @ cs2, Inr ())))"

text \<open>Line 121.\<close>

definition error_message_of :: "exn \<Rightarrow> string" where
  "error_message_of e = (case e of Error m \<Rightarrow> m | NonError \<Rightarrow> ''Unknown processing error'')"

record process_request =
  imageFile :: "ImageFile option"
  settings :: "CompressionSettings option"

datatype process_body = ErrorJson string | ImageFileJson ImageFile

record 'b response =
  status_code :: nat
  body :: 'b

text \<open>
  \<open>POST\<close>: the argument is what \<open>await request.json()\<close> gives, which may throw outside the
  \<open>try\<close> block. The result is the response, or \<open>Inl\<close> for an exception that leaves the
  handler, and the calls made.
\<close>

definition process_POST ::
  "process_env \<Rightarrow> exn + process_request
     \<Rightarrow> (exn + process_body response) \<times> call list" where
  "process_POST env request_json =
     (case request_json of
        Inl e \<Rightarrow> (Inl e, [])
      | Inr rq \<Rightarrow>
          (case (imageFile rq, settings rq) of
             (Some img, Some s) \<Rightarrow>
               (if truthy (blobUrl img) then
                  (case try_block env img s (the (blobUrl img)) of
                     (u, cs, Inr _) \<Rightarrow>
                       (Inr \<lparr>status_code = 200, body = ImageFileJson (spread_merge img u)\<rparr>, cs)
                   | (u, cs, Inl e) \<Rightarrow>
                       (Inr \<lparr>status_code = 500,
                             body = ImageFileJson
                               (spread_merge img
                                  (u\<lparr> upd_status := Some failed,
                                      upd_errorMessage := Some (error_message_of e),
                                      upd_processingTimeMs :=
                                        Some (date_now_end env - date_now_start env) \<rparr>))\<rparr>,
                        cs))
                else
                  (Inr \<lparr>status_code = 400,
                        body = ErrorJson ''Missing image file data, settings, or blob URL.''\<rparr>,
                   []))
           | _ \<Rightarrow>
               (Inr \<lparr>status_code = 400,
                     body = ErrorJson ''Missing image file data, settings, or blob URL.''\<rparr>,
                [])))"

section \<open>Upload handler (src/app/api/upload/route.ts)\<close>

text \<open>A \<open>File\<close> of the form data: its \<open>name\<close>, \<open>type\<close> and \<open>size\<close>.\<close>

record File =
  file_name :: string
  file_type :: string
  file_size :: nat

definition MAX_FILE_SIZE_MB :: nat where
  "MAX_FILE_SIZE_MB = 10"

definition MAX_FILE_SIZE_BYTES :: nat where
  "MAX_FILE_SIZE_BYTES = MAX_FILE_SIZE_MB * 1024 * 1024"

definition ALLOWED_MIME_TYPES :: "string list" where
  "ALLOWED_MIME_TYPES = [''image/jpeg'', ''image/png'', ''image/webp'', ''image/avif'']"

definition digit_char :: "nat \<Rightarrow> char" where
  "digit_char d = ''0123456789'' ! d"

fun digits :: "nat \<Rightarrow> string" where
  "digits n = (if n < 10 then [digit_char n] else digits (n div 10) @ [digit_char (n mod 10)])"

declare digits.simps [simp del]

text \<open>
  \<open>x.toFixed(2)\<close> for \<open>x \<ge> 0\<close>: the nearest multiple of a hundredth, the larger of two
  that are as near.
\<close>

definition toFixed2 :: "rat \<Rightarrow> string" where
  "toFixed2 x =
     (let n = nat \<lfloor>x * 100 + 1 / 2\<rfloor>
      in digits (n div 100) @ ''.'' @ [digit_char (n mod 100 div 10), digit_char (n mod 10)])"

definition unsupported_type_error :: "File \<Rightarrow> string" where
  "unsupported_type_error file =
     ''Unsupported file type: '' @ file_name file @ '' ('' @ file_type file @ '')''"

definition too_large_error :: "File \<Rightarrow> string" where
  "too_large_error file =
     ''File too large: '' @ file_name file @ '' (''
       @ toFixed2 (of_nat (file_size file) / 1024 / 1024) @ '' MB)''"

definition upload_failed_error :: "File \<Rightarrow> string" where
  "upload_failed_error file = ''Failed to upload '' @ file_name file @ ''.''"

text \<open>Line 43: the text after the last dot, \<open>bin\<close> for a name without a dot.\<close>

definition fileExtension :: "File \<Rightarrow> string" where
  "fileExtension file =
     (if CHR ''.'' \<in> set (file_name file)
      then last (split_on CHR ''.'' (file_name file))
      else ''bin'')"

definition upload_put_options :: "File \<Rightarrow> put_options" where
  "upload_put_options file =
     \<lparr> access = ''public'', contentType = file_type file,
       cacheControl = Some ''public, max-age=3600'', cacheControlMaxAge = None \<rparr>"

text \<open>
  The collaborators: \<open>nanoid\<close>, by the number of earlier calls, and the blob store's
  \<open>put\<close>, by the number of earlier calls and its arguments.
\<close>

record upload_env =
  nanoid :: "nat \<Rightarrow> string"
  put_file :: "nat \<Rightarrow> string \<Rightarrow> File \<Rightarrow> put_options \<Rightarrow> exn + put_blob_result"

text \<open>
  The state of the loop at lines 28 to 71: the two arrays, and the calls of \<open>nanoid\<close> and
  \<open>put\<close> made so far (\<open>put_calls\<close> holds the arguments of each attempted write).
\<close>

record upload_state =
  uploadedFilesInfo :: "ImageFile list"
  errors :: "string list"
  nanoid_calls :: nat
  put_calls :: "(string \<times> File \<times> put_options) list"

definition initial_upload_state :: upload_state where
  "initial_upload_state =
     \<lparr>uploadedFilesInfo = [], errors = [], nanoid_calls = 0, put_calls = []\<rparr>"

definition imageFileInfo :: "File \<Rightarrow> put_blob_result \<Rightarrow> ImageFile" where
  "imageFileInfo file blob =
     \<lparr> image_id = pathname blob,
       originalName = file_name file,
       originalSize = int (file_size file),
       originalFormat = file_type file,
       compressedSize = None,
       compressionRatio = None,
       status = uploaded,
       metadata = \<lparr> title = None, description = None, author = None, copyright = None,
                    keywords_list = None, customFields = None \<rparr>,
       originalMetadata = None,
       processingSettings = None,
       downloadUrl = None,
       errorMessage = None,
       processingTimeMs = None,
       blobUrl = Some (url blob) \<rparr>"

text \<open>One iteration of the loop.\<close>

definition upload_one :: "upload_env \<Rightarrow> upload_state \<Rightarrow> File \<Rightarrow> upload_state" where
  "upload_one env st file =
     (if file_type file \<notin> set ALLOWED_MIME_TYPES then
        st\<lparr>errors := errors st @ [unsupported_type_error file]\<rparr>
      else if file_size file > MAX_FILE_SIZE_BYTES then
        st\<lparr>errors := errors st @ [too_large_error file]\<rparr>
      else
        (let uniqueId = nanoid env (nanoid_calls st);
             blobPath = ''uploads/'' @ uniqueId @ ''.'' @ fileExtension file;
             st1 = st\<lparr> nanoid_calls := Suc (nanoid_calls st),
                        put_calls := put_calls st @ [(blobPath, file, upload_put_options file)] \<rparr>
         in case put_file env (length (put_calls st)) blobPath file (upload_put_options file) of
              Inr blob \<Rightarrow>
                st1\<lparr>uploadedFilesInfo := uploadedFilesInfo st1 @ [imageFileInfo file blob]\<rparr>
            | Inl e \<Rightarrow> st1\<lparr>errors := errors st1 @ [upload_failed_error file]\<rparr>))"

definition upload_loop :: "upload_env \<Rightarrow> upload_state \<Rightarrow> File list \<Rightarrow> upload_state" where
  "upload_loop env st files = foldl (upload_one env) st files"

datatype upload_body =
    UploadError string
  | UploadedFiles "ImageFile list"
  | PartialUpload "ImageFile list" "string list"

text \<open>Lines 73 to 87.\<close>

definition upload_result :: "upload_state \<Rightarrow> upload_body response" where
  "upload_result st =
     (if length (uploadedFilesInfo st) = 0 \<and> length (errors st) > 0 then
        \<lparr> status_code = 400,
          body = UploadError (''Upload failed. Errors: '' @ join '', '' (errors st)) \<rparr>
      else if length (errors st) > 0 then
        \<lparr>status_code = 207, body = PartialUpload (uploadedFilesInfo st) (errors st)\<rparr>
      else \<lparr>status_code = 200, body = UploadedFiles (uploadedFilesInfo st)\<rparr>)"

text \<open>
  \<open>POST\<close>: the argument is what \<open>formData.getAll('files')\<close> gives, after
  \<open>await request.formData()\<close>, which may throw. The result is the response, or \<open>Inl\<close> for
  an exception that leaves the handler, and the writes attempted.
\<close>

definition upload_POST ::
  "upload_env \<Rightarrow> exn + File list
     \<Rightarrow> (exn + upload_body response) \<times> (string \<times> File \<times> put_options) list" where
  "upload_POST env form_files =
     (case form_files of
        Inl e \<Rightarrow> (Inl e, [])
      | Inr files \<Rightarrow>
          if length files = 0 then
            (Inr \<lparr>status_code = 400, body = UploadError ''No files provided.''\<rparr>, [])
          else
            (let st = upload_loop env initial_upload_state files
             in (Inr (upload_result st), put_calls st)))"

section \<open>Client file list (Home, src/unnamed/part_001)\<close>

record page_state =
  files :: "ImageFile list"
  page_errorMessage :: "string option"
  isProcessingAny :: bool

text \<open>Lines 113 to 121.\<close>

definition handleFilesUploaded :: "page_state \<Rightarrow> ImageFile list \<Rightarrow> page_state" where
  "handleFilesUploaded st uploadedFiles =
     (let prevFiles = files st;
          existingIds = set (map blobUrl prevFiles);
          newFiles = filter (\<lambda>f. blobUrl f \<notin> existingIds) uploadedFiles
      in st\<lparr>files := prevFiles @ newFiles, page_errorMessage := None\<rparr>)"

section \<open>Definitions for the statements\<close>

subsection \<open>The specification's formulas\<close>

text \<open>\<open>clamp(x, lo, hi)\<close>.\<close>

definition clamp :: "int \<Rightarrow> int \<Rightarrow> int \<Rightarrow> int" where
  "clamp x lo hi = (if x < lo then lo else if hi < x then hi else x)"

text \<open>\<open>level = clamp(round((100 - quality) / 10), 0, 9)\<close>.\<close>

definition spec_png_level :: "int \<Rightarrow> int" where
  "spec_png_level q = clamp (round ((100 - of_int q) / (10 :: rat))) 0 9"

text \<open>The subtype of a MIME type: what stands after its first slash, up to the next.\<close>

definition mime_subtype :: "string \<Rightarrow> string option" where
  "mime_subtype m =
     (if CHR ''/'' \<in> set m
      then Some (takeWhile (\<lambda>c. c \<noteq> CHR ''/'') (tl (dropWhile (\<lambda>c. c \<noteq> CHR ''/'') m)))
      else None)"

text \<open>
  \<open>compressionRatio = (1 - compressedSize/originalSize) * 100\<close> when \<open>originalSize > 0\<close>, else
  \<open>0\<close>: the formula in exact arithmetic.
\<close>

definition spec_ratio :: "int \<Rightarrow> int \<Rightarrow> rat" where
  "spec_ratio compressed_size original_size =
     (if original_size > 0
      then (1 - of_int compressed_size / of_int original_size) * 100
      else 0)"

subsection \<open>The calls and the failed record\<close>

text \<open>What is known of each call the process handler makes, by the request.\<close>

definition expected_call :: "ImageFile \<Rightarrow> CompressionSettings \<Rightarrow> call \<Rightarrow> bool" where
  "expected_call img s c =
     (case c of
        CallFetch u \<Rightarrow> blobUrl img = Some u
      | CallSharp b \<Rightarrow> True
      | CallJpeg q \<Rightarrow> effective_targetFormat img s = Some ''jpeg'' \<and> q = quality s
      | CallPng l \<Rightarrow>
          effective_targetFormat img s = Some ''png'' \<and> l = pngCompressionLevel (quality s)
      | CallWithMetadata m \<Rightarrow> metadataToEmbed s = Some m
      | CallToBuffer inst \<Rightarrow>
          (case effective_targetFormat img s of
             None \<Rightarrow> False
           | Some f \<Rightarrow>
               output_format inst =
                 (if f = ''jpeg'' then Some (JpegOptions (quality s))
                  else Some (PngOptions (pngCompressionLevel (quality s))))
               \<and> f \<in> set MVP_PROCESS_FORMATS)
          \<and> embedded inst = metadataToEmbed s
      | CallPut p b opts \<Rightarrow>
          (case effective_targetFormat img s of
             None \<Rightarrow> False
           | Some f \<Rightarrow>
               p = ''processed/'' @ image_id img @ ''.'' @ f
               \<and> opts = processed_put_options f
               \<and> f \<in> set MVP_PROCESS_FORMATS))"

text \<open>
  The record a failed request is answered with: the input record with the three
  properties the \<open>catch\<close> block assigns; \<open>m\<close> is its metadata.
\<close>

definition failed_record ::
  "process_env \<Rightarrow> ImageFile \<Rightarrow> exn \<Rightarrow> ImageMetadata \<Rightarrow> ImageFile" where
  "failed_record env img e m =
     img\<lparr> status := failed,
          errorMessage := Some (error_message_of e),
          processingTimeMs := Some (date_now_end env - date_now_start env),
          metadata := m \<rparr>"

text \<open>
  The exception \<open>e\<close> was caught: the handler returned, with status 500 and the failed
  record, whose metadata is the input's or the one assigned at line 81.
\<close>

definition caught_as ::
  "process_env \<Rightarrow> ImageFile \<Rightarrow> CompressionSettings \<Rightarrow> exn
     \<Rightarrow> (exn + process_body response) \<Rightarrow> bool" where
  "caught_as env img s e res =
     (res = Inr \<lparr>status_code = 500,
                 body = ImageFileJson (failed_record env img e (metadata img))\<rparr>
      \<or> res = Inr \<lparr>status_code = 500,
                   body = ImageFileJson (failed_record env img e (merged_metadata img s))\<rparr>)"

subsection \<open>Sample inputs\<close>

definition sample_env :: process_env where
  "sample_env =
     \<lparr> date_now_start = 1000, date_now_end = 1250,
       fetch = (\<lambda>u. Inr \<lparr>ok = True, statusText = ''OK'', arrayBuffer = Inr (replicate 1000 0)\<rparr>),
       sharp = (\<lambda>b. None),
       sharp_jpeg = (\<lambda>q. None),
       sharp_png = (\<lambda>l. None),
       sharp_withMetadata = (\<lambda>m. None),
       sharp_toBuffer = (\<lambda>i. Inr (replicate 400 0)),
       put = (\<lambda>p b opts. Inr \<lparr>url = ''https://store/'' @ p, pathname = p\<rparr>) \<rparr>"

definition sample_image :: ImageFile where
  "sample_image =
     \<lparr> image_id = ''uploads/a1.png'',
       originalName = ''a.png'',
       originalSize = 1000,
       originalFormat = ''image/png'',
       compressedSize = None,
       compressionRatio = None,
       status = uploaded,
       metadata = \<lparr> title = Some ''Old'', description = None, author = Some ''Ann'',
                    copyright = None, keywords_list = None, customFields = None \<rparr>,
       originalMetadata = None,
       processingSettings = None,
       downloadUrl = None,
       errorMessage = None,
       processingTimeMs = None,
       blobUrl = Some ''https://store/uploads/a1.png'' \<rparr>"

definition sample_settings :: CompressionSettings where
  "sample_settings =
     \<lparr> quality = 60, targetFormat = original, stripMetadata = None,
       preserveMetadata = None, resize = None,
       settings_metadata = \<lparr> title = Some ''Sunset'', description = None, author = None,
                             copyright = None, keywords_list = None, customFields = None \<rparr> \<rparr>"

text \<open>What the sample request is answered with.\<close>

definition sample_completed :: ImageFile where
  "sample_completed =
     sample_image
       \<lparr> compressedSize := Some 400,
         compressionRatio := Some 60,
         status := completed,
         metadata := \<lparr> title = Some ''Sunset'', description = None, author = Some ''Ann'',
                        copyright = None, keywords_list = None, customFields = None \<rparr>,
         processingSettings := Some sample_settings,
         downloadUrl := Some ''https://store/processed/uploads/a1.png.png'',
         processingTimeMs := Some 250 \<rparr>"

text \<open>
  The sample collaborators with a codec that fails, with a blob that is gone, and with a
  store that throws a value that is no \<open>Error\<close>.
\<close>

definition sample_env_encode_fails :: process_env where
  "sample_env_encode_fails =
     sample_env\<lparr>sharp_toBuffer := (\<lambda>i. Inl (Error ''Input buffer contains unsupported image format''))\<rparr>"

definition sample_env_fetch_fails :: process_env where
  "sample_env_fetch_fails =
     sample_env\<lparr>fetch := (\<lambda>u. Inr \<lparr>ok = False, statusText = ''Not Found'', arrayBuffer = Inr []\<rparr>)\<rparr>"

text \<open>
  The sample collaborators with a codec whose \<open>jpeg\<close> call refuses a quality outside 1 to
  100, as \<open>sharp\<close> does, and with an encoder that gives 930 bytes.
\<close>

definition sample_env_strict_jpeg :: process_env where
  "sample_env_strict_jpeg =
     sample_env
       \<lparr>sharp_jpeg :=
          (\<lambda>q. if 1 \<le> q \<and> q \<le> 100 then None
               else Some (Error ''Expected integer between 1 and 100 for quality''))\<rparr>"

definition sample_settings_jpeg_0 :: CompressionSettings where
  "sample_settings_jpeg_0 = sample_settings\<lparr>quality := 0, targetFormat := jpeg\<rparr>"

definition sample_env_930 :: process_env where
  "sample_env_930 = sample_env\<lparr>sharp_toBuffer := (\<lambda>i. Inr (replicate 930 0))\<rparr>"

definition sample_env_store_fails :: process_env where
  "sample_env_store_fails = sample_env\<lparr>put := (\<lambda>p b opts. Inl NonError)\<rparr>"

subsection \<open>Upload: validity of a file, and sample files\<close>

text \<open>
  A file passes validation: its declared type is one of the four image types and its size
  does not exceed the ceiling.
\<close>

definition valid_file :: "File \<Rightarrow> bool" where
  "valid_file f =
     (file_type f \<in> {''image/jpeg'', ''image/png'', ''image/webp'', ''image/avif''}
      \<and> file_size f \<le> MAX_FILE_SIZE_BYTES)"

text \<open>The error collected for a file that fails validation.\<close>

definition validation_error :: "File \<Rightarrow> string" where
  "validation_error f =
     (if file_type f \<notin> {''image/jpeg'', ''image/png'', ''image/webp'', ''image/avif''}
      then unsupported_type_error f
      else too_large_error f)"

definition sample_upload_env :: upload_env where
  "sample_upload_env =
     \<lparr> nanoid = (\<lambda>n. ''id'' @ replicate n CHR ''x''),
       put_file = (\<lambda>n p f opts.
          if file_name f = ''broken.png'' then Inl (Error ''store unavailable'')
          else Inr \<lparr>url = ''https://store/'' @ p, pathname = p\<rparr>) \<rparr>"

definition sample_png :: File where
  "sample_png = \<lparr>file_name = ''a.png'', file_type = ''image/png'', file_size = 2097152\<rparr>"

definition sample_gif :: File where
  "sample_gif = \<lparr>file_name = ''b.gif'', file_type = ''image/gif'', file_size = 1000\<rparr>"

definition sample_large :: File where
  "sample_large = \<lparr>file_name = ''c.jpg'', file_type = ''image/jpeg'', file_size = 11000000\<rparr>"

subsection \<open>Client: the merge in the specification's words\<close>

text \<open>
  The new records to append to a collection: in order, those whose storage reference does
  not occur in the collection.
\<close>

fun new_records :: "ImageFile list \<Rightarrow> ImageFile list \<Rightarrow> ImageFile list" where
  "new_records collection [] = []"
| "new_records collection (r # rs) =
     (if \<exists>g \<in> set collection. blobUrl g = blobUrl r
      then new_records collection rs
      else r # new_records collection rs)"

text \<open>The record the sample PNG file is uploaded as.\<close>

definition sample_uploaded :: ImageFile where
  "sample_uploaded =
     imageFileInfo sample_png
       \<lparr>url = ''https://store/uploads/id.png'', pathname = ''uploads/id.png''\<rparr>"

text \<open>
  Sample records of the client's list: one with the id of the uploaded sample record and
  another storage reference, one with another id and the same storage reference.
\<close>

definition sample_same_id :: ImageFile where
  "sample_same_id = sample_uploaded\<lparr>blobUrl := Some ''https://store/uploads/other.png''\<rparr>"

definition sample_same_blobUrl :: ImageFile where
  "sample_same_blobUrl = sample_uploaded\<lparr>image_id := ''uploads/other.png''\<rparr>"

definition sample_page :: page_state where
  "sample_page =
     \<lparr>files = [sample_uploaded], page_errorMessage = Some ''Upload failed'', isProcessingAny = False\<rparr>"

section \<open>The process handler, step by step\<close>

lemma process_POST_checked:
  assumes "imageFile rq = Some img" "settings rq = Some s" "truthy (blobUrl img)"
  shows "process_POST env (Inr rq) =
     (case try_block env img s (the (blobUrl img)) of
        (u, cs, Inr _) \<Rightarrow>
          (Inr \<lparr>status_code = 200, body = ImageFileJson (spread_merge img u)\<rparr>, cs)
      | (u, cs, Inl e) \<Rightarrow>
          (Inr \<lparr>status_code = 500,
                body = ImageFileJson
                  (spread_merge img
                     (u\<lparr> upd_status := Some failed,
                         upd_errorMessage := Some (error_message_of e),
                         upd_processingTimeMs :=
                           Some (date_now_end env - date_now_start env) \<rparr>))\<rparr>,
           cs))"
  using assms by (simp add: process_POST_def)

lemma try_block_cases:
  obtains
    (prepare_failed) cs e where
      "prepare env img s u = (cs, Inl e)"
      "try_block env img s u = (empty_update\<lparr>upd_status := Some processing\<rparr>, cs, Inl e)"
  | (produce_failed) cs1 inst tf cs2 e where
      "prepare env img s u = (cs1, Inr (inst, tf))"
      "encode_and_store env img inst tf = (cs2, Inl e)"
      "try_block env img s u =
         (empty_update\<lparr>upd_status := Some processing,
                        upd_metadata := Some (merged_metadata img s)\<rparr>, cs1 @ cs2, Inl e)"
  | (succeeded) cs1 inst tf cs2 buf blob where
      "prepare env img s u = (cs1, Inr (inst, tf))"
      "encode_and_store env img inst tf = (cs2, Inr (buf, blob))"
      "try_block env img s u =
         (empty_update\<lparr>upd_status := Some completed,
                        upd_metadata := Some (merged_metadata img s),
                        upd_compressedSize := Some (int (length buf)),
                        upd_compressionRatio :=
                          Some (compression_ratio (int (length buf)) (originalSize img)),
                        upd_downloadUrl := Some (url blob),
                        upd_processingTimeMs := Some (date_now_end env - date_now_start env),
                        upd_processingSettings := Some s\<rparr>, cs1 @ cs2, Inr ())"
proof (cases "prepare env img s u")
  case (Pair cs1 r1)
  show ?thesis
  proof (cases r1)
    case (Inl e)
    with Pair show ?thesis
      by (intro prepare_failed[of cs1 e]) (simp_all add: try_block_def)
  next
    case (Inr p)
    obtain inst tf where p: "p = (inst, tf)" by (cases p)
    obtain cs2 r2 where es: "encode_and_store env img inst tf = (cs2, r2)"
      by (cases "encode_and_store env img inst tf")
    show ?thesis
    proof (cases r2)
      case (Inl e)
      with Pair Inr p es show ?thesis
        by (intro produce_failed[of cs1 inst tf cs2 e]) (simp_all add: try_block_def)
    next
      case r2: (Inr q)
      obtain buf blob where q: "q = (buf, blob)" by (cases q)
      with Pair Inr p es r2 show ?thesis
        by (intro succeeded[of cs1 inst tf cs2 buf blob]) (simp_all add: try_block_def)
    qed
  qed
qed

lemma configure_instance:
  assumes "configure env s b tf = (cs, Inr inst)"
  shows "input_buffer inst = b"
    and "output_format inst =
           (if tf = ''jpeg'' then Some (JpegOptions (quality s))
            else if tf = ''png'' then Some (PngOptions (pngCompressionLevel (quality s)))
            else None)"
    and "embedded inst = metadataToEmbed s"
  using assms
  by (auto simp: configure_def apply_format_def apply_metadata_def
      split: if_splits option.splits prod.splits sum.splits)

lemma configure_calls:
  assumes "configure env s b tf = (cs, r)" and "c \<in> set cs"
  shows "(c = CallJpeg (quality s) \<and> tf = ''jpeg'')
       \<or> (c = CallPng (pngCompressionLevel (quality s)) \<and> tf = ''png'')
       \<or> (\<exists>m. c = CallWithMetadata m \<and> metadataToEmbed s = Some m)"
  using assms
  by (auto simp: configure_def apply_format_def apply_metadata_def
      split: if_splits option.splits prod.splits sum.splits)

lemma configure_png_call:
  "configure env s b ''png'' = (cs, r) \<Longrightarrow> CallPng (pngCompressionLevel (quality s)) \<in> set cs"
  by (auto simp: configure_def apply_format_def apply_metadata_def
      split: if_splits option.splits prod.splits sum.splits)

lemma prepare_cases:
  obtains
    (fetch_failed) e where
      "fetchBlob env u = Inl e" "prepare env img s u = ([CallFetch u], Inl e)"
  | (sharp_failed) b e where
      "fetchBlob env u = Inr b" "sharp env b = Some e"
      "prepare env img s u = ([CallFetch u, CallSharp b], Inl e)"
  | (unsupported) b where
      "fetchBlob env u = Inr b" "sharp env b = None"
      "\<not> supported (effective_targetFormat img s)"
      "prepare env img s u =
         ([CallFetch u, CallSharp b],
          Inl (Error (unsupported_format_message (effective_targetFormat img s))))"
  | (configured) b tf cs r where
      "fetchBlob env u = Inr b" "sharp env b = None"
      "effective_targetFormat img s = Some tf" "tf \<in> set MVP_PROCESS_FORMATS"
      "configure env s b tf = (cs, r)"
      "prepare env img s u =
         ([CallFetch u, CallSharp b] @ cs,
          case r of Inl e \<Rightarrow> Inl e | Inr inst \<Rightarrow> Inr (inst, tf))"
proof (cases "fetchBlob env u")
  case (Inl e)
  then show ?thesis by (intro fetch_failed[of e]) (simp_all add: prepare_def)
next
  case (Inr b)
  show ?thesis
  proof (cases "sharp env b")
    case (Some e)
    with Inr show ?thesis by (intro sharp_failed[of b e]) (simp_all add: prepare_def)
  next
    case None
    show ?thesis
    proof (cases "supported (effective_targetFormat img s)")
      case False
      with Inr None show ?thesis by (intro unsupported[of b]) (simp_all add: prepare_def)
    next
      case True
      then obtain tf where tf: "effective_targetFormat img s = Some tf"
        and mem: "tf \<in> set MVP_PROCESS_FORMATS"
        by (auto simp: supported_def split: option.splits)
      obtain cs r where c: "configure env s b tf = (cs, r)"
        by (cases "configure env s b tf")
      from Inr None True tf c show ?thesis
        by (intro configured[of b tf cs r] mem)
           (simp_all add: prepare_def split: sum.splits)
    qed
  qed
qed

lemma prepare_calls_expected:
  assumes "prepare env img s u = (cs, r)" and "blobUrl img = Some u" and "c \<in> set cs"
  shows "expected_call img s c"
proof (cases rule: prepare_cases[of env u img s])
  case (fetch_failed e)
  with assms show ?thesis by (auto simp: expected_call_def)
next
  case (sharp_failed b e)
  with assms show ?thesis by (auto simp: expected_call_def)
next
  case (unsupported b)
  with assms show ?thesis by (auto simp: expected_call_def)
next
  case (configured b tf cs' r')
  with assms have "c = CallFetch u \<or> c = CallSharp b \<or> c \<in> set cs'" by auto
  then show ?thesis
  proof (elim disjE)
    assume "c \<in> set cs'"
    from configure_calls[OF configured(5) this] configured(3) show ?thesis
      by (auto simp: expected_call_def)
  qed (use assms in \<open>auto simp: expected_call_def\<close>)
qed

lemma prepare_result:
  assumes "prepare env img s u = (cs, Inr (inst, tf))"
  shows "effective_targetFormat img s = Some tf" and "tf \<in> set MVP_PROCESS_FORMATS"
    and "output_format inst =
           (if tf = ''jpeg'' then Some (JpegOptions (quality s))
            else Some (PngOptions (pngCompressionLevel (quality s))))"
    and "embedded inst = metadataToEmbed s"
proof -
  have "effective_targetFormat img s = Some tf \<and> tf \<in> set MVP_PROCESS_FORMATS
      \<and> output_format inst =
           (if tf = ''jpeg'' then Some (JpegOptions (quality s))
            else Some (PngOptions (pngCompressionLevel (quality s))))
      \<and> embedded inst = metadataToEmbed s"
  proof (cases rule: prepare_cases[of env u img s])
    case (configured b tf' cs' r')
    with assms obtain inst' where r': "r' = Inr inst'" and eq: "inst' = inst" "tf' = tf"
      by (cases r') auto
    from configure_instance[OF configured(5)[unfolded r']] configured(3,4) eq show ?thesis
      by (auto simp: MVP_PROCESS_FORMATS_def)
  qed (use assms in auto)
  then show "effective_targetFormat img s = Some tf" and "tf \<in> set MVP_PROCESS_FORMATS"
    and "output_format inst =
           (if tf = ''jpeg'' then Some (JpegOptions (quality s))
            else Some (PngOptions (pngCompressionLevel (quality s))))"
    and "embedded inst = metadataToEmbed s"
    by simp_all
qed

lemma encode_and_store_calls_expected:
  assumes "prepare env img s u = (cs1, Inr (inst, tf))"
    and "encode_and_store env img inst tf = (cs2, r)" and "c \<in> set cs2"
  shows "expected_call img s c"
  using assms(2,3) prepare_result[OF assms(1)]
  by (auto simp: encode_and_store_def expected_call_def Let_def
      split: sum.splits)

lemma try_block_calls:
  "fst (snd (try_block env img s u)) =
     (case prepare env img s u of
        (cs1, Inl e) \<Rightarrow> cs1
      | (cs1, Inr (inst, tf)) \<Rightarrow> cs1 @ fst (encode_and_store env img inst tf))"
  by (auto simp: try_block_def split: prod.splits sum.splits)

lemma process_POST_calls:
  assumes "imageFile rq = Some img" "settings rq = Some s" "truthy (blobUrl img)"
  shows "snd (process_POST env (Inr rq)) = fst (snd (try_block env img s (the (blobUrl img))))"
  by (simp add: process_POST_checked[OF assms] split: prod.splits sum.splits)

lemma process_calls_expected:
  assumes pre: "imageFile rq = Some img" "settings rq = Some s" "truthy (blobUrl img)"
    and c: "c \<in> set (snd (process_POST env (Inr rq)))"
  shows "expected_call img s c"
proof -
  from pre(3) obtain u where u: "blobUrl img = Some u"
    by (auto simp: truthy_def split: option.splits)
  obtain cs1 r1 where p: "prepare env img s u = (cs1, r1)"
    by (cases "prepare env img s u")
  show ?thesis
  proof (cases r1)
    case (Inl e)
    with c p u have "c \<in> set cs1"
      by (simp add: process_POST_calls[OF pre] try_block_calls)
    from prepare_calls_expected[OF p u this] show ?thesis .
  next
    case (Inr q)
    obtain inst tf where q: "q = (inst, tf)" by (cases q)
    obtain cs2 r2 where es: "encode_and_store env img inst tf = (cs2, r2)"
      by (cases "encode_and_store env img inst tf")
    from c p u Inr q es have "c \<in> set cs1 \<or> c \<in> set cs2"
      by (simp add: process_POST_calls[OF pre] try_block_calls)
    then show ?thesis
    proof
      assume "c \<in> set cs1"
      from prepare_calls_expected[OF p u this] show ?thesis .
    next
      assume "c \<in> set cs2"
      from encode_and_store_calls_expected[OF p[unfolded Inr q] es this] show ?thesis .
    qed
  qed
qed

lemma process_POST_200:
  assumes "fst (process_POST env request_json) = Inr resp" and "status_code resp = 200"
  obtains rq img s cs1 inst tf cs2 buf blob where
    "request_json = Inr rq" "imageFile rq = Some img" "settings rq = Some s"
    "truthy (blobUrl img)"
    "prepare env img s (the (blobUrl img)) = (cs1, Inr (inst, tf))"
    "encode_and_store env img inst tf = (cs2, Inr (buf, blob))"
    "resp = \<lparr>status_code = 200,
             body = ImageFileJson
               (img\<lparr> compressedSize := Some (int (length buf)),
                     compressionRatio :=
                       Some (compression_ratio (int (length buf)) (originalSize img)),
                     status := completed,
                     metadata := merged_metadata img s,
                     processingSettings := Some s,
                     downloadUrl := Some (url blob),
                     processingTimeMs := Some (date_now_end env - date_now_start env) \<rparr>)\<rparr>"
proof -
  from assms obtain rq where rq: "request_json = Inr rq"
    by (cases request_json) (auto simp: process_POST_def)
  from assms rq obtain img s where pre: "imageFile rq = Some img" "settings rq = Some s"
    "truthy (blobUrl img)"
    by (auto simp: process_POST_def split: option.splits if_splits)
  show ?thesis
  proof (cases rule: try_block_cases[of env img s "the (blobUrl img)"])
    case (prepare_failed cs e)
    with assms rq show ?thesis by (auto simp: process_POST_checked[OF pre])
  next
    case (produce_failed cs1 inst tf cs2 e)
    with assms rq show ?thesis by (auto simp: process_POST_checked[OF pre])
  next
    case (succeeded cs1 inst tf cs2 buf blob)
    with assms rq have "resp = \<lparr>status_code = 200,
             body = ImageFileJson
               (img\<lparr> compressedSize := Some (int (length buf)),
                     compressionRatio :=
                       Some (compression_ratio (int (length buf)) (originalSize img)),
                     status := completed,
                     metadata := merged_metadata img s,
                     processingSettings := Some s,
                     downloadUrl := Some (url blob),
                     processingTimeMs := Some (date_now_end env - date_now_start env) \<rparr>)\<rparr>"
      by (auto simp: process_POST_checked[OF pre] spread_merge_def empty_update_def)
    with rq pre succeeded(1,2) show ?thesis by (rule that)
  qed
qed

lemma prepare_fetch_failed:
  "fetchBlob env u = Inl e \<Longrightarrow> prepare env img s u = ([CallFetch u], Inl e)"
  by (simp add: prepare_def)

lemma prepare_unsupported:
  "fetchBlob env u = Inr b \<Longrightarrow> sharp env b = None
     \<Longrightarrow> \<not> supported (effective_targetFormat img s)
     \<Longrightarrow> prepare env img s u =
          ([CallFetch u, CallSharp b],
           Inl (Error (unsupported_format_message (effective_targetFormat img s))))"
  by (simp add: prepare_def)

lemma caught_prepare:
  assumes pre: "imageFile rq = Some img" "settings rq = Some s" "truthy (blobUrl img)"
    and p: "prepare env img s (the (blobUrl img)) = (cs, Inl e)"
  shows "process_POST env (Inr rq) =
     (Inr \<lparr>status_code = 500,
           body = ImageFileJson (failed_record env img e (metadata img))\<rparr>, cs)"
  using p
  by (simp add: process_POST_checked[OF pre] try_block_def spread_merge_def empty_update_def
      failed_record_def)

lemma caught_produce:
  assumes pre: "imageFile rq = Some img" "settings rq = Some s" "truthy (blobUrl img)"
    and p: "prepare env img s (the (blobUrl img)) = (cs1, Inr (inst, tf))"
    and q: "encode_and_store env img inst tf = (cs2, Inl e)"
  shows "process_POST env (Inr rq) =
     (Inr \<lparr>status_code = 500,
           body = ImageFileJson (failed_record env img e (merged_metadata img s))\<rparr>, cs1 @ cs2)"
  using p q
  by (simp add: process_POST_checked[OF pre] try_block_def spread_merge_def empty_update_def
      failed_record_def)

lemma encode_failed:
  "sharp_toBuffer env inst = Inl e
     \<Longrightarrow> encode_and_store env img inst tf = ([CallToBuffer inst], Inl e)"
  by (simp add: encode_and_store_def)

lemma store_failed:
  "sharp_toBuffer env inst = Inr b
     \<Longrightarrow> put env (''processed/'' @ image_id img @ ''.'' @ tf) b (processed_put_options tf) = Inl e
     \<Longrightarrow> encode_and_store env img inst tf =
          ([CallToBuffer inst,
            CallPut (''processed/'' @ image_id img @ ''.'' @ tf) b (processed_put_options tf)],
           Inl e)"
  by (simp add: encode_and_store_def)

lemma try_block_caught:
  assumes pre: "imageFile rq = Some img" "settings rq = Some s" "truthy (blobUrl img)"
    and t: "try_block env img s (the (blobUrl img)) = (u, cs, Inl e)"
  shows "caught_as env img s e (fst (process_POST env (Inr rq)))"
proof (cases rule: try_block_cases[of env img s "the (blobUrl img)"])
  case (prepare_failed cs' e')
  with t have "e' = e" by simp
  with caught_prepare[OF pre prepare_failed(1)] show ?thesis
    by (simp add: caught_as_def)
next
  case (produce_failed cs1 inst tf cs2 e')
  with t have "e' = e" by simp
  with caught_produce[OF pre produce_failed(1,2)] show ?thesis
    by (simp add: caught_as_def)
next
  case (succeeded cs1 inst tf cs2 buf blob)
  with t show ?thesis by simp
qed

lemma webp_unsupported:
  "targetFormat s = webp \<Longrightarrow> \<not> supported (effective_targetFormat img s)"
  by (simp add: supported_def effective_targetFormat_def format_name_def MVP_PROCESS_FORMATS_def)

lemma webp_message:
  "targetFormat s = webp
     \<Longrightarrow> unsupported_format_message (effective_targetFormat img s) =
          ''Unsupported target format for MVP: webp. Only jpeg and png are supported initially.''"
  by (simp add: unsupported_format_message_def effective_targetFormat_def format_name_def
      template_string_def)

section \<open>The formulas of the specification\<close>

lemma pngCompressionLevel_spec: "pngCompressionLevel q = spec_png_level q"
  by (simp add: pngCompressionLevel_def spec_png_level_def clamp_def)

lemma round_tenth: "round ((100 - of_int q) / (10 :: rat)) = (105 - q) div 10"
proof -
  have "round ((100 - of_int q) / (10 :: rat)) = \<lfloor>(100 - of_int q) / (10 :: rat) + 1 / 2\<rfloor>"
    by (simp only: round_def)
  also have "(100 - of_int q) / (10 :: rat) + 1 / 2 = of_int (105 - q) / of_int 10"
    by (simp add: field_simps)
  also have "\<lfloor>(of_int (105 - q) / of_int 10 :: rat)\<rfloor> = (105 - q) div 10"
    by (rule floor_divide_of_int_eq)
  finally show ?thesis .
qed

lemma spec_png_level_range: "0 \<le> spec_png_level q \<and> spec_png_level q \<le> 9"
  by (simp add: spec_png_level_def clamp_def)

lemma spec_png_level_closed:
  "spec_png_level q = (if q \<ge> 96 then 0 else if q \<le> 14 then 9 else (105 - q) div 10)"
  unfolding spec_png_level_def clamp_def round_tenth by auto

lemma split_on_nonempty: "split_on c xs \<noteq> []"
  by (induction xs) (auto split: list.splits)

lemma hd_split_on: "hd (split_on c xs) = takeWhile (\<lambda>x. x \<noteq> c) xs"
  using split_on_nonempty[of c] by (induction xs) (auto split: list.splits)

lemma split_on_second:
  "index_opt (split_on c xs) 1 =
     (if c \<in> set xs
      then Some (takeWhile (\<lambda>x. x \<noteq> c) (tl (dropWhile (\<lambda>x. x \<noteq> c) xs)))
      else None)"
proof (induction xs)
  case Nil
  show ?case by (simp add: index_opt_def)
next
  case (Cons x xs)
  obtain y ys where s: "split_on c xs = y # ys"
    using split_on_nonempty[of c xs] by (cases "split_on c xs") auto
  show ?case
  proof (cases "x = c")
    case True
    with s hd_split_on[of c xs] show ?thesis by (simp add: index_opt_def)
  next
    case False
    with s have "index_opt (split_on c (x # xs)) 1 = index_opt (split_on c xs) 1"
      by (simp add: index_opt_def)
    also note Cons.IH
    finally show ?thesis using False by simp
  qed
qed

lemma effective_targetFormat_spec:
  "effective_targetFormat img s =
     (if targetFormat s = original then mime_subtype (originalFormat img)
      else Some (format_name (targetFormat s)))"
  using split_on_second[of "CHR ''/''" "originalFormat img"]
  by (simp add: effective_targetFormat_def mime_subtype_def)

subsection \<open>Doubles\<close>

lemma floor_numeral_fraction:
  "\<lfloor>numeral a / numeral b :: rat\<rfloor> = numeral a div numeral b"
  using floor_divide_of_int_eq[of "numeral a" "numeral b", where ?'a = rat] by simp

lemma ceiling_numeral_fraction:
  "\<lceil>numeral a / numeral b :: rat\<rceil> = - (- numeral a div numeral b)"
  using floor_divide_of_int_eq[of "- numeral a" "numeral b", where ?'a = rat]
  by (simp add: ceiling_def)

lemmas binary64_evaluation =
  binary64_def floor_log2_def pow2_def round_half_even_def bit_length.simps
  floor_numeral_fraction ceiling_numeral_fraction

text \<open>\<open>(1 - 400 / 1000) * 100\<close> in doubles: \<open>0.4\<close>, \<open>0.6\<close> and \<open>60\<close>.\<close>

lemma compression_ratio_400_1000: "compression_ratio 400 1000 = 60"
proof -
  have 1: "binary64 (400 / 1000) = 3602879701896397 / 2 ^ 53"
    by (simp add: binary64_evaluation)
  have 2: "binary64 (1 - 3602879701896397 / 2 ^ 53) = 5404319552844595 / 2 ^ 53"
    by (simp add: binary64_evaluation)
  have 3: "binary64 (5404319552844595 / 2 ^ 53 * 100) = 60"
    by (simp add: binary64_evaluation)
  show ?thesis
    by (simp only: compression_ratio_def js_divide_def js_minus_def js_times_def
        of_int_numeral 1 2 3) simp
qed

text \<open>
  \<open>(1 - 930 / 1000) * 100\<close> in doubles: \<open>0.93\<close>, \<open>0.06999999999999995\<close> and
  \<open>6.999999999999995\<close>.
\<close>

lemma compression_ratio_930_1000:
  "compression_ratio 930 1000 = 3940649673949181 / 562949953421312"
proof -
  have 1: "binary64 (930 / 1000) = 8376695306909123 / 2 ^ 53"
    by (simp add: binary64_evaluation)
  have 2: "binary64 (1 - 8376695306909123 / 2 ^ 53) = 630503947831869 / 2 ^ 53"
    by (simp add: binary64_evaluation)
  have 3: "binary64 (630503947831869 / 2 ^ 53 * 100) = 3940649673949181 / 562949953421312"
    by (simp add: binary64_evaluation)
  show ?thesis
    by (simp only: compression_ratio_def js_divide_def js_minus_def js_times_def
        of_int_numeral 1 2 3) simp
qed

lemma compression_ratio_not_positive: "original_size \<le> 0 \<Longrightarrow> compression_ratio b original_size = 0"
  by (simp add: compression_ratio_def)

lemma binary64_small_values: "binary64 0 = 0" "binary64 1 = 1" "binary64 100 = 100"
  by (simp_all add: binary64_evaluation)

lemma compression_ratio_nothing_saved:
  "0 < original_size \<Longrightarrow> compression_ratio original_size original_size = 0"
  by (simp add: compression_ratio_def js_divide_def js_minus_def js_times_def
      binary64_small_values)

lemma compression_ratio_everything_saved:
  "0 < original_size \<Longrightarrow> compression_ratio 0 original_size = 100"
  by (simp add: compression_ratio_def js_divide_def js_minus_def js_times_def
      binary64_small_values)

subsection \<open>The sample request\<close>

lemma sample_checked:
  "imageFile \<lparr>imageFile = Some sample_image, settings = Some s\<rparr> = Some sample_image"
  "settings \<lparr>imageFile = Some sample_image, settings = Some s\<rparr> = Some s"
  "truthy (blobUrl sample_image)"
  by (simp_all add: sample_image_def truthy_def)

lemma sample_fetch: "fetchBlob sample_env u = Inr (replicate 1000 0)"
  by (simp add: fetchBlob_def sample_env_def)

lemma sample_effective_png: "effective_targetFormat sample_image sample_settings = Some ''png''"
  by (simp add: effective_targetFormat_def sample_image_def sample_settings_def index_opt_def)

lemma sample_run:
  "process_POST sample_env (Inr \<lparr>imageFile = Some sample_image, settings = Some sample_settings\<rparr>)
     = (Inr \<lparr>status_code = 200, body = ImageFileJson sample_completed\<rparr>,
        [CallFetch ''https://store/uploads/a1.png'',
         CallSharp (replicate 1000 0),
         CallPng 4,
         CallWithMetadata \<lparr>ImageDescription = Some ''Sunset'', UserComment = None\<rparr>,
         CallToBuffer
           \<lparr> input_buffer = replicate 1000 0, output_format = Some (PngOptions 4),
             embedded = Some \<lparr>ImageDescription = Some ''Sunset'', UserComment = None\<rparr> \<rparr>,
         CallPut ''processed/uploads/a1.png.png'' (replicate 400 0)
           \<lparr> access = ''public'', contentType = ''image/png'', cacheControl = None,
             cacheControlMaxAge = Some 3600 \<rparr>])"
proof -
  have l: "pngCompressionLevel 60 = 4"
    by (simp add: pngCompressionLevel_spec spec_png_level_closed)
  show ?thesis
    by (simp add: process_POST_def try_block_def prepare_def fetchBlob_def truthy_def
        supported_def effective_targetFormat_def index_opt_def MVP_PROCESS_FORMATS_def
        configure_def apply_format_def apply_metadata_def metadataToEmbed_def
        encode_and_store_def processed_put_options_def l Let_def merged_metadata_def
        compression_ratio_400_1000 compression_ratio_not_positive spread_merge_def empty_update_def sample_completed_def
        sample_env_def sample_image_def sample_settings_def)
qed

lemma sample_response:
  "fst (process_POST sample_env
         (Inr \<lparr>imageFile = Some sample_image, settings = Some sample_settings\<rparr>))
     = Inr \<lparr>status_code = 200, body = ImageFileJson sample_completed\<rparr>"
  by (simp add: sample_run)

lemma sample_prepare_encode_fails:
  "prepare sample_env_encode_fails sample_image sample_settings (the (blobUrl sample_image))
     = ([CallFetch ''https://store/uploads/a1.png'',
         CallSharp (replicate 1000 0),
         CallPng 4,
         CallWithMetadata \<lparr>ImageDescription = Some ''Sunset'', UserComment = None\<rparr>],
        Inr (\<lparr> input_buffer = replicate 1000 0, output_format = Some (PngOptions 4),
               embedded = Some \<lparr>ImageDescription = Some ''Sunset'', UserComment = None\<rparr> \<rparr>,
             ''png''))"
proof -
  have l: "pngCompressionLevel 60 = 4"
    by (simp add: pngCompressionLevel_spec spec_png_level_closed)
  show ?thesis
    by (simp add: prepare_def fetchBlob_def supported_def effective_targetFormat_def
        index_opt_def MVP_PROCESS_FORMATS_def configure_def apply_format_def
        apply_metadata_def metadataToEmbed_def l Let_def truthy_def
        sample_env_encode_fails_def sample_env_def sample_image_def sample_settings_def)
qed

lemma sample_fetch_fails:
  "fetchBlob sample_env_fetch_fails u = Inl (Error ''Failed to fetch blob: Not Found'')"
  by (simp add: fetchBlob_def sample_env_fetch_fails_def sample_env_def)

lemma sample_prepare_store_fails:
  "prepare sample_env_store_fails sample_image sample_settings (the (blobUrl sample_image))
     = ([CallFetch ''https://store/uploads/a1.png'',
         CallSharp (replicate 1000 0),
         CallPng 4,
         CallWithMetadata \<lparr>ImageDescription = Some ''Sunset'', UserComment = None\<rparr>],
        Inr (\<lparr> input_buffer = replicate 1000 0, output_format = Some (PngOptions 4),
               embedded = Some \<lparr>ImageDescription = Some ''Sunset'', UserComment = None\<rparr> \<rparr>,
             ''png''))"
proof -
  have l: "pngCompressionLevel 60 = 4"
    by (simp add: pngCompressionLevel_spec spec_png_level_closed)
  show ?thesis
    by (simp add: prepare_def fetchBlob_def supported_def effective_targetFormat_def
        index_opt_def MVP_PROCESS_FORMATS_def configure_def apply_format_def
        apply_metadata_def metadataToEmbed_def l Let_def truthy_def
        sample_env_store_fails_def sample_env_def sample_image_def sample_settings_def)
qed

lemma sample_store_fails:
  "sharp_toBuffer sample_env_store_fails inst = Inr (replicate 400 0)"
  "put sample_env_store_fails p b opts = Inl NonError"
  by (simp_all add: sample_env_store_fails_def sample_env_def)

lemma sample_encode_fails:
  "sharp_toBuffer sample_env_encode_fails inst
     = Inl (Error ''Input buffer contains unsupported image format'')"
  by (simp add: sample_env_encode_fails_def)

lemma sample_effective_png_quality:
  "effective_targetFormat sample_image (sample_settings\<lparr>quality := q\<rparr>) = Some ''png''"
  by (simp add: effective_targetFormat_def sample_image_def sample_settings_def index_opt_def)

lemma sample_response_zero:
  "fst (process_POST sample_env
         (Inr \<lparr>imageFile = Some (sample_image\<lparr>originalSize := 0\<rparr>),
                settings = Some sample_settings\<rparr>))
     = Inr \<lparr>status_code = 200,
            body = ImageFileJson
              (sample_completed\<lparr>originalSize := 0, compressionRatio := Some 0\<rparr>)\<rparr>"
proof -
  have l: "pngCompressionLevel 60 = 4"
    by (simp add: pngCompressionLevel_spec spec_png_level_closed)
  show ?thesis
    by (simp add: process_POST_def try_block_def prepare_def fetchBlob_def truthy_def
        supported_def effective_targetFormat_def index_opt_def MVP_PROCESS_FORMATS_def
        configure_def apply_format_def apply_metadata_def metadataToEmbed_def
        encode_and_store_def processed_put_options_def l Let_def merged_metadata_def
        compression_ratio_400_1000 compression_ratio_not_positive spread_merge_def empty_update_def sample_completed_def
        sample_env_def sample_image_def sample_settings_def)
qed

lemma sample_response_930:
  "fst (process_POST sample_env_930
         (Inr \<lparr>imageFile = Some sample_image, settings = Some sample_settings\<rparr>))
     = Inr \<lparr>status_code = 200,
            body = ImageFileJson
              (sample_completed
                 \<lparr> compressedSize := Some 930,
                   compressionRatio := Some (3940649673949181 / 562949953421312) \<rparr>)\<rparr>"
proof -
  have l: "pngCompressionLevel 60 = 4"
    by (simp add: pngCompressionLevel_spec spec_png_level_closed)
  show ?thesis
    by (simp add: process_POST_def try_block_def prepare_def fetchBlob_def truthy_def
        supported_def effective_targetFormat_def index_opt_def MVP_PROCESS_FORMATS_def
        configure_def apply_format_def apply_metadata_def metadataToEmbed_def
        encode_and_store_def processed_put_options_def l Let_def merged_metadata_def
        compression_ratio_930_1000 spread_merge_def empty_update_def sample_completed_def
        sample_env_930_def sample_env_def sample_image_def sample_settings_def)
qed

lemma sample_prepare_strict_jpeg:
  "prepare sample_env_strict_jpeg sample_image sample_settings_jpeg_0 (the (blobUrl sample_image))
     = ([CallFetch ''https://store/uploads/a1.png'', CallSharp (replicate 1000 0), CallJpeg 0],
        Inl (Error ''Expected integer between 1 and 100 for quality''))"
  by (simp add: prepare_def fetchBlob_def supported_def effective_targetFormat_def
      format_name_def index_opt_def MVP_PROCESS_FORMATS_def configure_def apply_format_def
      Let_def truthy_def
      sample_env_strict_jpeg_def sample_settings_jpeg_0_def sample_env_def sample_image_def
      sample_settings_def)

lemma sample_strict_jpeg_fails:
  "process_POST sample_env_strict_jpeg
       (Inr \<lparr>imageFile = Some sample_image, settings = Some sample_settings_jpeg_0\<rparr>)
     = (Inr \<lparr>status_code = 500,
              body = ImageFileJson
                (sample_image
                   \<lparr> status := failed,
                     errorMessage := Some ''Expected integer between 1 and 100 for quality'',
                     processingTimeMs := Some 250 \<rparr>)\<rparr>,
        [CallFetch ''https://store/uploads/a1.png'', CallSharp (replicate 1000 0), CallJpeg 0])"
  using caught_prepare[OF sample_checked sample_prepare_strict_jpeg]
  by (simp add: failed_record_def error_message_of_def
      sample_env_strict_jpeg_def sample_env_def sample_image_def)

section \<open>The upload loop\<close>

lemma upload_loop_Nil: "upload_loop env st [] = st"
  by (simp add: upload_loop_def)

lemma upload_loop_Cons: "upload_loop env st (f # fs) = upload_loop env (upload_one env st f) fs"
  by (simp add: upload_loop_def)

lemma upload_loop_snoc: "upload_loop env st (fs @ [f]) = upload_one env (upload_loop env st fs) f"
  by (simp add: upload_loop_def)

lemma upload_loop_append:
  "upload_loop env st (fs @ gs) = upload_loop env (upload_loop env st fs) gs"
  by (simp add: upload_loop_def)

lemma valid_file_iff:
  "valid_file f \<longleftrightarrow> file_type f \<in> set ALLOWED_MIME_TYPES \<and> \<not> file_size f > MAX_FILE_SIZE_BYTES"
  by (auto simp: valid_file_def ALLOWED_MIME_TYPES_def)

lemma upload_one_invalid:
  "\<not> valid_file f \<Longrightarrow> upload_one env st f = st\<lparr>errors := errors st @ [validation_error f]\<rparr>"
  by (auto simp: upload_one_def valid_file_iff validation_error_def ALLOWED_MIME_TYPES_def)

lemma upload_one_valid:
  "valid_file f \<Longrightarrow>
     upload_one env st f =
       (let blobPath = ''uploads/'' @ nanoid env (nanoid_calls st) @ ''.'' @ fileExtension f;
            st1 = st\<lparr> nanoid_calls := Suc (nanoid_calls st),
                       put_calls := put_calls st @ [(blobPath, f, upload_put_options f)] \<rparr>
        in case put_file env (length (put_calls st)) blobPath f (upload_put_options f) of
             Inr blob \<Rightarrow> st1\<lparr>uploadedFilesInfo := uploadedFilesInfo st1 @ [imageFileInfo f blob]\<rparr>
           | Inl e \<Rightarrow> st1\<lparr>errors := errors st1 @ [upload_failed_error f]\<rparr>)"
  by (simp add: upload_one_def valid_file_iff Let_def)

lemma upload_one_put_calls:
  "map (\<lambda>c. fst (snd c)) (put_calls (upload_one env st f)) =
     map (\<lambda>c. fst (snd c)) (put_calls st) @ (if valid_file f then [f] else [])"
  by (cases "valid_file f")
     (auto simp: upload_one_invalid upload_one_valid Let_def split: sum.splits)

lemma upload_loop_put_calls:
  "map (\<lambda>c. fst (snd c)) (put_calls (upload_loop env st fs)) =
     map (\<lambda>c. fst (snd c)) (put_calls st) @ filter valid_file fs"
  by (induction fs rule: rev_induct) (simp_all add: upload_loop_Nil upload_loop_snoc upload_one_put_calls)



text \<open>Two states of the loop that differ in one collected error only.\<close>

lemma upload_one_skipped:
  assumes "uploadedFilesInfo B = uploadedFilesInfo C" "put_calls B = put_calls C"
    "nanoid_calls B = nanoid_calls C" "errors C = es @ t" "errors B = es @ m # t"
  shows "uploadedFilesInfo (upload_one env B x) = uploadedFilesInfo (upload_one env C x)
       \<and> put_calls (upload_one env B x) = put_calls (upload_one env C x)
       \<and> nanoid_calls (upload_one env B x) = nanoid_calls (upload_one env C x)
       \<and> (\<exists>t'. errors (upload_one env C x) = es @ t' \<and> errors (upload_one env B x) = es @ m # t')"
  using assms
  by (cases "valid_file x")
     (auto simp: upload_one_invalid upload_one_valid Let_def split: sum.splits)

lemma upload_loop_skipped:
  assumes "uploadedFilesInfo B = uploadedFilesInfo C" "put_calls B = put_calls C"
    "nanoid_calls B = nanoid_calls C" "errors C = es @ t" "errors B = es @ m # t"
  shows "uploadedFilesInfo (upload_loop env B fs) = uploadedFilesInfo (upload_loop env C fs)
       \<and> put_calls (upload_loop env B fs) = put_calls (upload_loop env C fs)
       \<and> nanoid_calls (upload_loop env B fs) = nanoid_calls (upload_loop env C fs)
       \<and> (\<exists>t'. errors (upload_loop env C fs) = es @ t'
              \<and> errors (upload_loop env B fs) = es @ m # t')"
proof (induction fs rule: rev_induct)
  case Nil
  from assms show ?case by (simp add: upload_loop_Nil)
next
  case (snoc x fs)
  then obtain t' where
    "uploadedFilesInfo (upload_loop env B fs) = uploadedFilesInfo (upload_loop env C fs)"
    "put_calls (upload_loop env B fs) = put_calls (upload_loop env C fs)"
    "nanoid_calls (upload_loop env B fs) = nanoid_calls (upload_loop env C fs)"
    "errors (upload_loop env C fs) = es @ t'"
    "errors (upload_loop env B fs) = es @ m # t'"
    by blast
  from upload_one_skipped[OF this] show ?case
    by (simp add: upload_loop_snoc)
qed

lemma upload_POST_puts:
  "snd (upload_POST env (Inr fs)) = put_calls (upload_loop env initial_upload_state fs)"
  by (cases fs) (simp_all add: upload_POST_def upload_loop_Nil initial_upload_state_def Let_def)


subsection \<open>The sample files\<close>

lemma MAX_FILE_SIZE_BYTES_value: "MAX_FILE_SIZE_BYTES = 10485760"
  by (simp add: MAX_FILE_SIZE_BYTES_def MAX_FILE_SIZE_MB_def)

lemma sample_files_valid:
  "valid_file sample_png" "\<not> valid_file sample_gif" "\<not> valid_file sample_large"
  by (simp_all add: valid_file_def MAX_FILE_SIZE_BYTES_value sample_png_def sample_gif_def
      sample_large_def)

lemma sample_upload_one_png:
  "upload_one sample_upload_env initial_upload_state sample_png =
     \<lparr> uploadedFilesInfo =
         [sample_uploaded],
       errors = [],
       nanoid_calls = 1,
       put_calls = [(''uploads/id.png'', sample_png, upload_put_options sample_png)] \<rparr>"
  unfolding upload_one_valid[OF sample_files_valid(1)]
  by (simp add: initial_upload_state_def sample_upload_env_def fileExtension_def
      sample_png_def sample_uploaded_def Let_def)

lemma toFixed2_sample: "toFixed2 (of_nat 11000000 / 1024 / 1024) = ''10.49''"
proof -
  have "(of_nat 11000000 / 1024 / 1024 :: rat) * 100 + 1 / 2 = of_int 4298923 / of_int 4096"
    by simp
  then have "\<lfloor>(of_nat 11000000 / 1024 / 1024 :: rat) * 100 + 1 / 2\<rfloor> = 4298923 div 4096"
    by (simp only: floor_divide_of_int_eq)
  then have "nat \<lfloor>(of_nat 11000000 / 1024 / 1024 :: rat) * 100 + 1 / 2\<rfloor> = 1049"
    by simp
  then show ?thesis
    by (simp add: toFixed2_def digits.simps digit_char_def)
qed

lemma sample_validation_errors:
  "validation_error sample_gif = ''Unsupported file type: b.gif (image/gif)''"
  "validation_error sample_large = ''File too large: c.jpg (10.49 MB)''"
  using toFixed2_sample
  by (simp_all add: validation_error_def unsupported_type_error_def too_large_error_def
      sample_gif_def sample_large_def)

lemma sample_loop_png:
  "upload_loop sample_upload_env initial_upload_state [sample_png] =
     \<lparr> uploadedFilesInfo = [sample_uploaded],
       errors = [],
       nanoid_calls = 1,
       put_calls = [(''uploads/id.png'', sample_png, upload_put_options sample_png)] \<rparr>"
  by (simp add: upload_loop_Cons upload_loop_Nil sample_upload_one_png)



section \<open>The client's merge\<close>

lemma occurs_iff:
  "blobUrl f \<in> blobUrl ` set collection \<longleftrightarrow> (\<exists>g \<in> set collection. blobUrl g = blobUrl f)"
  by (metis (no_types) image_iff)

lemma new_records_filter:
  "new_records collection rs = filter (\<lambda>f. blobUrl f \<notin> set (map blobUrl collection)) rs"
  by (induction rs) (simp_all add: occurs_iff)

section \<open>Properties of the handlers and of the client\<close>

text \<open>
  C1. A process request that passes the precondition check (a record, settings and a
  non-empty storage reference) never ends in an exception that leaves the handler: whatever
  the \<open>try\<close> block throws is caught by the one \<open>catch\<close> block, and the response has status
  500 and carries the input record with \<open>status = failed\<close>, \<open>errorMessage\<close> the exception's
  message (or \<open>Unknown processing error\<close> for a thrown value that is no \<open>Error\<close>) and
  \<open>processingTimeMs\<close> the time elapsed. This holds for a failure of the fetch, for the
  rejection of an unsupported format, for a failure of the encoding and for a failure of the
  store; a request for \<open>webp\<close> is always answered so, with the unsupported-format message
  when the image was fetched.
\<close>

theorem process_failure_is_caught:
  assumes "imageFile rq = Some img" and "settings rq = Some s" and "truthy (blobUrl img)"
  shows
    "(\<forall>u cs e. try_block env img s (the (blobUrl img)) = (u, cs, Inl e)
        \<longrightarrow> caught_as env img s e (fst (process_POST env (Inr rq))))
     \<and> (\<forall>e. fetchBlob env (the (blobUrl img)) = Inl e
        \<longrightarrow> caught_as env img s e (fst (process_POST env (Inr rq))))
     \<and> (\<forall>b. fetchBlob env (the (blobUrl img)) = Inr b \<and> sharp env b = None
              \<and> \<not> supported (effective_targetFormat img s)
        \<longrightarrow> caught_as env img s
              (Error (unsupported_format_message (effective_targetFormat img s)))
              (fst (process_POST env (Inr rq))))
     \<and> (\<forall>cs inst tf e. prepare env img s (the (blobUrl img)) = (cs, Inr (inst, tf))
              \<and> sharp_toBuffer env inst = Inl e
        \<longrightarrow> caught_as env img s e (fst (process_POST env (Inr rq))))
     \<and> (\<forall>cs inst tf b e. prepare env img s (the (blobUrl img)) = (cs, Inr (inst, tf))
              \<and> sharp_toBuffer env inst = Inr b
              \<and> put env (''processed/'' @ image_id img @ ''.'' @ tf) b
                    (processed_put_options tf) = Inl e
        \<longrightarrow> caught_as env img s e (fst (process_POST env (Inr rq))))
     \<and> (targetFormat s = webp
        \<longrightarrow> (\<exists>e. caught_as env img s e (fst (process_POST env (Inr rq))))
            \<and> (\<forall>b. fetchBlob env (the (blobUrl img)) = Inr b \<and> sharp env b = None
                 \<longrightarrow> caught_as env img s
                       (Error ''Unsupported target format for MVP: webp. Only jpeg and png are supported initially.'')
                       (fst (process_POST env (Inr rq)))))
     \<and> (\<exists>resp. fst (process_POST env (Inr rq)) = Inr resp)"
proof -
  let ?u = "the (blobUrl img)"
  let ?res = "fst (process_POST env (Inr rq))"
  note caught = try_block_caught[OF assms]
  have any: "\<forall>u cs e. try_block env img s ?u = (u, cs, Inl e) \<longrightarrow> caught_as env img s e ?res"
    using caught by blast
  have prep: "caught_as env img s e ?res" if "prepare env img s ?u = (cs, Inl e)" for cs e
    using caught_prepare[OF assms that] by (simp add: caught_as_def)
  have prod: "caught_as env img s e ?res"
    if "prepare env img s ?u = (cs1, Inr (inst, tf))"
      and "encode_and_store env img inst tf = (cs2, Inl e)" for cs1 inst tf cs2 e
    using caught_produce[OF assms that] by (simp add: caught_as_def)
  have fetch: "\<forall>e. fetchBlob env ?u = Inl e \<longrightarrow> caught_as env img s e ?res"
    by (auto intro: prep simp: prepare_def)
  have unsup: "\<forall>b. fetchBlob env ?u = Inr b \<and> sharp env b = None
        \<and> \<not> supported (effective_targetFormat img s)
      \<longrightarrow> caught_as env img s
            (Error (unsupported_format_message (effective_targetFormat img s))) ?res"
    by (auto intro: prep simp: prepare_def)
  have enc: "\<forall>cs inst tf e. prepare env img s ?u = (cs, Inr (inst, tf))
        \<and> sharp_toBuffer env inst = Inl e \<longrightarrow> caught_as env img s e ?res"
    by (auto intro: prod encode_failed)
  have store: "\<forall>cs inst tf b e. prepare env img s ?u = (cs, Inr (inst, tf))
        \<and> sharp_toBuffer env inst = Inr b
        \<and> put env (''processed/'' @ image_id img @ ''.'' @ tf) b (processed_put_options tf) = Inl e
      \<longrightarrow> caught_as env img s e ?res"
  proof (intro allI impI, elim conjE)
    fix cs inst tf b e
    assume p: "prepare env img s ?u = (cs, Inr (inst, tf))"
      and t: "sharp_toBuffer env inst = Inr b"
      and w: "put env (''processed/'' @ image_id img @ ''.'' @ tf) b (processed_put_options tf)
                = Inl e"
    from prod[OF p store_failed[OF t w]] show "caught_as env img s e ?res" .
  qed
  have webp1: "\<exists>e. caught_as env img s e ?res" if w: "targetFormat s = webp"
  proof (cases rule: prepare_cases[of env ?u img s])
    case (fetch_failed e)
    then show ?thesis by (auto intro: prep)
  next
    case (sharp_failed b e)
    then show ?thesis by (auto intro: prep)
  next
    case (unsupported b)
    then show ?thesis by (auto intro: prep)
  next
    case (configured b tf cs r)
    with webp_unsupported[OF w, of img] show ?thesis by (simp add: supported_def)
  qed
  have webp2: "\<forall>b. fetchBlob env ?u = Inr b \<and> sharp env b = None
      \<longrightarrow> caught_as env img s
            (Error ''Unsupported target format for MVP: webp. Only jpeg and png are supported initially.'')
            ?res" if w: "targetFormat s = webp"
    using unsup webp_unsupported[OF w, of img] webp_message[OF w, of img] by auto
  have total: "\<exists>resp. ?res = Inr resp"
    by (simp add: process_POST_checked[OF assms] split: prod.splits sum.splits)
  from any fetch unsup enc store webp1 webp2 total show ?thesis by blast
qed

theorem process_failure_is_caught_witness:
  "truthy (blobUrl sample_image)
   \<and> targetFormat (sample_settings\<lparr>targetFormat := webp\<rparr>) = webp
   \<and> fetchBlob sample_env (the (blobUrl sample_image)) = Inr (replicate 1000 0)
   \<and> sharp sample_env (replicate 1000 0) = None
   \<and> caught_as sample_env sample_image (sample_settings\<lparr>targetFormat := webp\<rparr>)
        (Error ''Unsupported target format for MVP: webp. Only jpeg and png are supported initially.'')
        (fst (process_POST sample_env
               (Inr \<lparr>imageFile = Some sample_image,
                      settings = Some (sample_settings\<lparr>targetFormat := webp\<rparr>)\<rparr>)))
   \<and> fst (process_POST sample_env
            (Inr \<lparr>imageFile = Some sample_image,
                   settings = Some (sample_settings\<lparr>targetFormat := webp\<rparr>)\<rparr>))
       = Inr \<lparr>status_code = 500,
              body = ImageFileJson
                (sample_image
                   \<lparr> status := failed,
                     errorMessage := Some ''Unsupported target format for MVP: webp. Only jpeg and png are supported initially.'',
                     processingTimeMs := Some 250 \<rparr>)\<rparr>
   \<and> fetchBlob sample_env_fetch_fails (the (blobUrl sample_image))
       = Inl (Error ''Failed to fetch blob: Not Found'')
   \<and> caught_as sample_env_fetch_fails sample_image sample_settings
        (Error ''Failed to fetch blob: Not Found'')
        (fst (process_POST sample_env_fetch_fails
               (Inr \<lparr>imageFile = Some sample_image, settings = Some sample_settings\<rparr>)))
   \<and> caught_as sample_env_encode_fails sample_image sample_settings
        (Error ''Input buffer contains unsupported image format'')
        (fst (process_POST sample_env_encode_fails
               (Inr \<lparr>imageFile = Some sample_image, settings = Some sample_settings\<rparr>)))
   \<and> caught_as sample_env_store_fails sample_image sample_settings NonError
        (fst (process_POST sample_env_store_fails
               (Inr \<lparr>imageFile = Some sample_image, settings = Some sample_settings\<rparr>)))
   \<and> error_message_of NonError = ''Unknown processing error''"
proof -
  let ?w = "sample_settings\<lparr>targetFormat := webp\<rparr>"
  let ?rq = "\<lparr>imageFile = Some sample_image, settings = Some sample_settings\<rparr>"
  let ?rqw = "\<lparr>imageFile = Some sample_image, settings = Some ?w\<rparr>"
  have w: "targetFormat ?w = webp" by simp
  have n: "sharp sample_env (replicate 1000 0) = None" by (simp add: sample_env_def)
  note t = process_failure_is_caught[OF sample_checked]
  from t[where s = "?w" and env = sample_env] w sample_fetch n
  have a: "caught_as sample_env sample_image ?w
        (Error ''Unsupported target format for MVP: webp. Only jpeg and png are supported initially.'')
        (fst (process_POST sample_env (Inr ?rqw)))"
    by blast
  have a': "fst (process_POST sample_env (Inr ?rqw))
       = Inr \<lparr>status_code = 500,
              body = ImageFileJson
                (sample_image
                   \<lparr> status := failed,
                     errorMessage := Some ''Unsupported target format for MVP: webp. Only jpeg and png are supported initially.'',
                     processingTimeMs := Some 250 \<rparr>)\<rparr>"
    by (simp add: process_POST_def try_block_def prepare_def fetchBlob_def truthy_def
        supported_def effective_targetFormat_def format_name_def MVP_PROCESS_FORMATS_def
        unsupported_format_message_def template_string_def spread_merge_def empty_update_def
        error_message_of_def sample_env_def sample_image_def)
  from t[where s = sample_settings and env = sample_env_fetch_fails] sample_fetch_fails
  have b: "caught_as sample_env_fetch_fails sample_image sample_settings
        (Error ''Failed to fetch blob: Not Found'')
        (fst (process_POST sample_env_fetch_fails (Inr ?rq)))"
    by blast
  from t[where s = sample_settings and env = sample_env_encode_fails]
    sample_prepare_encode_fails sample_encode_fails
  have c: "caught_as sample_env_encode_fails sample_image sample_settings
        (Error ''Input buffer contains unsupported image format'')
        (fst (process_POST sample_env_encode_fails (Inr ?rq)))"
    by blast
  from t[where s = sample_settings and env = sample_env_store_fails]
    sample_prepare_store_fails sample_store_fails
  have d: "caught_as sample_env_store_fails sample_image sample_settings NonError
        (fst (process_POST sample_env_store_fails (Inr ?rq)))"
    by blast
  have e: "error_message_of NonError = ''Unknown processing error''"
    by (simp add: error_message_of_def)
  from sample_checked(3) w sample_fetch n a a' sample_fetch_fails b c d e show ?thesis by simp
qed

text \<open>
  C2. When the effective target format of a process request is \<open>png\<close>, the compression
  level the handler gives the PNG encoder is \<open>clamp(round((100 - quality) / 10), 0, 9)\<close>:
  every \<open>png\<close> call it makes carries that level, it makes no \<open>jpeg\<close> call, the instance it
  encodes holds that level, and the call is made whenever the image was fetched. The level
  lies in 0 to 9 for every quality; quality 100 gives 0, 60 gives 4, 70 gives 3 and the
  out-of-domain quality 0 gives 9.
\<close>

theorem png_level_is_clamped_rounding:
  assumes "imageFile rq = Some img" and "settings rq = Some s" and "truthy (blobUrl img)"
    and "effective_targetFormat img s = Some ''png''"
  shows
    "pngCompressionLevel (quality s) = spec_png_level (quality s)
     \<and> (\<forall>c \<in> set (snd (process_POST env (Inr rq))).
        (\<forall>l. c = CallPng l \<longrightarrow> l = spec_png_level (quality s))
        \<and> (\<forall>q. c \<noteq> CallJpeg q)
        \<and> (\<forall>inst. c = CallToBuffer inst
              \<longrightarrow> output_format inst = Some (PngOptions (spec_png_level (quality s)))))
     \<and> (\<forall>b. fetchBlob env (the (blobUrl img)) = Inr b \<and> sharp env b = None
          \<longrightarrow> CallPng (spec_png_level (quality s)) \<in> set (snd (process_POST env (Inr rq))))
     \<and> 0 \<le> spec_png_level (quality s) \<and> spec_png_level (quality s) \<le> 9
     \<and> (quality s = 100 \<longrightarrow> spec_png_level (quality s) = 0)
     \<and> (quality s = 60 \<longrightarrow> spec_png_level (quality s) = 4)
     \<and> (quality s = 70 \<longrightarrow> spec_png_level (quality s) = 3)
     \<and> (quality s = 0 \<longrightarrow> spec_png_level (quality s) = 9)"
proof -
  let ?cs = "snd (process_POST env (Inr rq))"
  let ?u = "the (blobUrl img)"
  have calls: "\<forall>c \<in> set ?cs.
        (\<forall>l. c = CallPng l \<longrightarrow> l = spec_png_level (quality s))
        \<and> (\<forall>q. c \<noteq> CallJpeg q)
        \<and> (\<forall>inst. c = CallToBuffer inst
              \<longrightarrow> output_format inst = Some (PngOptions (spec_png_level (quality s))))"
  proof
    fix c assume "c \<in> set ?cs"
    from process_calls_expected[OF assms(1-3) this] assms(4)
    show "(\<forall>l. c = CallPng l \<longrightarrow> l = spec_png_level (quality s))
        \<and> (\<forall>q. c \<noteq> CallJpeg q)
        \<and> (\<forall>inst. c = CallToBuffer inst
              \<longrightarrow> output_format inst = Some (PngOptions (spec_png_level (quality s))))"
      by (auto simp: expected_call_def pngCompressionLevel_spec)
  qed
  have made: "CallPng (spec_png_level (quality s)) \<in> set ?cs"
    if f: "fetchBlob env ?u = Inr b" and n: "sharp env b = None" for b
  proof (cases rule: prepare_cases[of env ?u img s])
    case (configured b' tf cs r)
    with f assms(4) have c: "configure env s b ''png'' = (cs, r)" by simp
    from configure_png_call[OF c] have "CallPng (spec_png_level (quality s)) \<in> set cs"
      by (simp add: pngCompressionLevel_spec)
    with configured(6) show ?thesis
      by (auto simp: process_POST_calls[OF assms(1-3)] try_block_calls split: sum.splits)
  next
    case (unsupported b')
    with assms(4) show ?thesis by (simp add: supported_def MVP_PROCESS_FORMATS_def)
  qed (use f n in auto)
  have examples: "spec_png_level 100 = 0" "spec_png_level 60 = 4" "spec_png_level 70 = 3"
    "spec_png_level 0 = 9"
    by (simp_all add: spec_png_level_closed)
  from pngCompressionLevel_spec[of "quality s"] calls made
    spec_png_level_range[of "quality s"] examples
  show ?thesis by auto
qed

theorem png_level_is_clamped_rounding_witness:
  "truthy (blobUrl sample_image)
   \<and> effective_targetFormat sample_image sample_settings = Some ''png''
   \<and> quality sample_settings = 60
   \<and> CallPng 4 \<in> set (snd (process_POST sample_env
           (Inr \<lparr>imageFile = Some sample_image, settings = Some sample_settings\<rparr>)))
   \<and> CallPng 0 \<in> set (snd (process_POST sample_env
           (Inr \<lparr>imageFile = Some sample_image,
                  settings = Some (sample_settings\<lparr>quality := 100\<rparr>)\<rparr>)))
   \<and> CallPng 3 \<in> set (snd (process_POST sample_env
           (Inr \<lparr>imageFile = Some sample_image,
                  settings = Some (sample_settings\<lparr>quality := 70\<rparr>)\<rparr>)))
   \<and> CallPng 9 \<in> set (snd (process_POST sample_env
           (Inr \<lparr>imageFile = Some sample_image,
                  settings = Some (sample_settings\<lparr>quality := 0\<rparr>)\<rparr>)))"
proof -
  have q: "quality sample_settings = 60" by (simp add: sample_settings_def)
  have n: "sharp sample_env (replicate 1000 0) = None" by (simp add: sample_env_def)
  note t = png_level_is_clamped_rounding[OF sample_checked, where env = sample_env]
  from t[OF sample_effective_png] q sample_fetch n
  have a: "CallPng 4 \<in> set (snd (process_POST sample_env
           (Inr \<lparr>imageFile = Some sample_image, settings = Some sample_settings\<rparr>)))"
    by auto
  from t[OF sample_effective_png_quality[of 100]] sample_fetch n
  have b: "CallPng 0 \<in> set (snd (process_POST sample_env
           (Inr \<lparr>imageFile = Some sample_image,
                  settings = Some (sample_settings\<lparr>quality := 100\<rparr>)\<rparr>)))"
    by auto
  from t[OF sample_effective_png_quality[of 70]] sample_fetch n
  have c: "CallPng 3 \<in> set (snd (process_POST sample_env
           (Inr \<lparr>imageFile = Some sample_image,
                  settings = Some (sample_settings\<lparr>quality := 70\<rparr>)\<rparr>)))"
    by auto
  from t[OF sample_effective_png_quality[of 0]] sample_fetch n
  have d: "CallPng 9 \<in> set (snd (process_POST sample_env
           (Inr \<lparr>imageFile = Some sample_image,
                  settings = Some (sample_settings\<lparr>quality := 0\<rparr>)\<rparr>)))"
    by auto
  from sample_checked(3) sample_effective_png q a b c d show ?thesis by simp
qed

text \<open>
  C3. A file of an upload batch whose declared type is not one of \<open>image/jpeg\<close>,
  \<open>image/png\<close>, \<open>image/webp\<close>, \<open>image/avif\<close>, or whose size exceeds the ceiling, is skipped:
  its iteration of the loop only collects the file's error message, without a write to the
  store (validation comes first). The other files of the batch proceed as they do in the
  batch without that file: the same writes are attempted, the same records are uploaded,
  and the same errors are collected, with the skipped file's error among them. The writes
  attempted for a batch are those for its valid files, in order.
\<close>

theorem invalid_file_is_skipped:
  assumes "file_type f \<notin> {''image/jpeg'', ''image/png'', ''image/webp'', ''image/avif''}
           \<or> file_size f > MAX_FILE_SIZE_BYTES"
  shows
    "let A = upload_loop env initial_upload_state pre;
         B = upload_loop env initial_upload_state (pre @ f # post);
         C = upload_loop env initial_upload_state (pre @ post)
     in upload_one env A f = A\<lparr>errors := errors A @ [validation_error f]\<rparr>
        \<and> put_calls B = put_calls C
        \<and> uploadedFilesInfo B = uploadedFilesInfo C
        \<and> (\<exists>t. errors C = errors A @ t \<and> errors B = errors A @ validation_error f # t)
        \<and> snd (upload_POST env (Inr (pre @ f # post))) = snd (upload_POST env (Inr (pre @ post)))
        \<and> map (\<lambda>c. fst (snd c)) (snd (upload_POST env (Inr (pre @ f # post))))
            = filter valid_file (pre @ post)
        \<and> f \<notin> set (map (\<lambda>c. fst (snd c)) (snd (upload_POST env (Inr (pre @ f # post)))))"
proof -
  define A where "A = upload_loop env initial_upload_state pre"
  define B where "B = upload_loop env initial_upload_state (pre @ f # post)"
  define C where "C = upload_loop env initial_upload_state (pre @ post)"
  from assms have inv: "\<not> valid_file f" by (auto simp: valid_file_def)
  have step: "upload_one env A f = A\<lparr>errors := errors A @ [validation_error f]\<rparr>"
    by (rule upload_one_invalid[OF inv])
  have B: "B = upload_loop env (A\<lparr>errors := errors A @ [validation_error f]\<rparr>) post"
    by (simp add: B_def A_def upload_loop_append upload_loop_Cons upload_one_invalid[OF inv])
  have C: "C = upload_loop env A post"
    by (simp add: C_def A_def upload_loop_append)
  have rel: "uploadedFilesInfo B = uploadedFilesInfo C \<and> put_calls B = put_calls C
      \<and> nanoid_calls B = nanoid_calls C
      \<and> (\<exists>t. errors C = errors A @ t \<and> errors B = errors A @ validation_error f # t)"
    unfolding B C
    by (rule upload_loop_skipped[where t = "[]"]) simp_all
  have puts: "snd (upload_POST env (Inr (pre @ f # post))) = put_calls B"
    "snd (upload_POST env (Inr (pre @ post))) = put_calls C"
    by (simp_all add: upload_POST_puts B_def C_def)
  have writes: "map (\<lambda>c. fst (snd c)) (put_calls B) = filter valid_file (pre @ post)"
    using inv by (simp add: B_def upload_loop_put_calls initial_upload_state_def)
  have absent: "f \<notin> set (map (\<lambda>c. fst (snd c)) (put_calls B))"
    unfolding writes using inv by simp
  from step rel puts writes absent
  have "upload_one env A f = A\<lparr>errors := errors A @ [validation_error f]\<rparr>
        \<and> put_calls B = put_calls C
        \<and> uploadedFilesInfo B = uploadedFilesInfo C
        \<and> (\<exists>t. errors C = errors A @ t \<and> errors B = errors A @ validation_error f # t)
        \<and> snd (upload_POST env (Inr (pre @ f # post))) = snd (upload_POST env (Inr (pre @ post)))
        \<and> map (\<lambda>c. fst (snd c)) (snd (upload_POST env (Inr (pre @ f # post))))
            = filter valid_file (pre @ post)
        \<and> f \<notin> set (map (\<lambda>c. fst (snd c)) (snd (upload_POST env (Inr (pre @ f # post)))))"
    by simp
  then show ?thesis unfolding Let_def A_def B_def C_def .
qed

theorem invalid_file_is_skipped_witness:
  "file_type sample_gif \<notin> {''image/jpeg'', ''image/png'', ''image/webp'', ''image/avif''}
   \<and> file_size sample_large > MAX_FILE_SIZE_BYTES
   \<and> snd (upload_POST sample_upload_env (Inr [sample_png, sample_gif]))
       = snd (upload_POST sample_upload_env (Inr [sample_png]))
   \<and> snd (upload_POST sample_upload_env (Inr [sample_png, sample_gif]))
       = [(''uploads/id.png'', sample_png, upload_put_options sample_png)]
   \<and> errors (upload_loop sample_upload_env initial_upload_state [sample_png, sample_gif])
       = [''Unsupported file type: b.gif (image/gif)'']
   \<and> snd (upload_POST sample_upload_env (Inr [sample_large, sample_png]))
       = snd (upload_POST sample_upload_env (Inr [sample_png]))
   \<and> uploadedFilesInfo (upload_loop sample_upload_env initial_upload_state [sample_large, sample_png])
       = [sample_uploaded]"
proof -
  have g: "file_type sample_gif \<notin> {''image/jpeg'', ''image/png'', ''image/webp'', ''image/avif''}"
    by (simp add: sample_gif_def)
  have l: "file_size sample_large > MAX_FILE_SIZE_BYTES"
    by (simp add: sample_large_def MAX_FILE_SIZE_BYTES_value)
  from g have g': "file_type sample_gif \<notin> {''image/jpeg'', ''image/png'', ''image/webp'', ''image/avif''}
      \<or> file_size sample_gif > MAX_FILE_SIZE_BYTES" by (rule disjI1)
  from l have l': "file_type sample_large \<notin> {''image/jpeg'', ''image/png'', ''image/webp'', ''image/avif''}
      \<or> file_size sample_large > MAX_FILE_SIZE_BYTES" by (rule disjI2)
  note a = invalid_file_is_skipped[OF g', where env = sample_upload_env
      and pre = "[sample_png]" and post = "[]", unfolded Let_def]
  note b = invalid_file_is_skipped[OF l', where env = sample_upload_env
      and pre = "[]" and post = "[sample_png]", unfolded Let_def]
  from a have 1: "snd (upload_POST sample_upload_env (Inr [sample_png, sample_gif]))
       = snd (upload_POST sample_upload_env (Inr [sample_png]))"
    by simp
  from a have 2: "errors (upload_loop sample_upload_env initial_upload_state [sample_png, sample_gif])
       = [''Unsupported file type: b.gif (image/gif)'']"
    by (auto simp: sample_loop_png sample_validation_errors)
  from b have 3: "snd (upload_POST sample_upload_env (Inr [sample_large, sample_png]))
       = snd (upload_POST sample_upload_env (Inr [sample_png]))"
    by simp
  from b have 4: "uploadedFilesInfo
        (upload_loop sample_upload_env initial_upload_state [sample_large, sample_png])
       = [sample_uploaded]"
    by (simp add: sample_loop_png)
  have 5: "snd (upload_POST sample_upload_env (Inr [sample_png]))
       = [(''uploads/id.png'', sample_png, upload_put_options sample_png)]"
    by (simp add: upload_POST_puts sample_loop_png)
  from g l 1 2 3 4 5 show ?thesis by simp
qed



text \<open>
  C5. The effective target format of a process request is the requested \<open>targetFormat\<close>
  when that is not \<open>original\<close>, and the subtype of the record's original MIME type when it
  is. It is the format the handler works with: a \<open>jpeg\<close> or \<open>png\<close> call is made only for
  that effective format, and the result is stored under the record's id with that format
  as extension and content type. With \<open>targetFormat = original\<close> and
  \<open>originalFormat = image/png\<close> the effective format is \<open>png\<close>, and the PNG encoder is
  configured whenever the image was fetched.
\<close>

theorem effective_target_format_resolution:
  assumes "imageFile rq = Some img" and "settings rq = Some s" and "truthy (blobUrl img)"
  shows
    "effective_targetFormat img s =
       (if targetFormat s = original then mime_subtype (originalFormat img)
        else Some (format_name (targetFormat s)))
     \<and> (\<forall>c \<in> set (snd (process_POST env (Inr rq))).
          (\<forall>q. c = CallJpeg q \<longrightarrow> effective_targetFormat img s = Some ''jpeg'')
          \<and> (\<forall>l. c = CallPng l \<longrightarrow> effective_targetFormat img s = Some ''png'')
          \<and> (\<forall>p b opts. c = CallPut p b opts
                \<longrightarrow> (\<exists>f. effective_targetFormat img s = Some f
                        \<and> p = ''processed/'' @ image_id img @ ''.'' @ f
                        \<and> contentType opts = ''image/'' @ f)))
     \<and> (targetFormat s = original \<and> originalFormat img = ''image/png''
          \<longrightarrow> effective_targetFormat img s = Some ''png''
              \<and> (\<forall>b. fetchBlob env (the (blobUrl img)) = Inr b \<and> sharp env b = None
                    \<longrightarrow> (\<exists>l. CallPng l \<in> set (snd (process_POST env (Inr rq))))))"
proof -
  let ?cs = "snd (process_POST env (Inr rq))"
  let ?u = "the (blobUrl img)"
  have calls: "\<forall>c \<in> set ?cs.
          (\<forall>q. c = CallJpeg q \<longrightarrow> effective_targetFormat img s = Some ''jpeg'')
          \<and> (\<forall>l. c = CallPng l \<longrightarrow> effective_targetFormat img s = Some ''png'')
          \<and> (\<forall>p b opts. c = CallPut p b opts
                \<longrightarrow> (\<exists>f. effective_targetFormat img s = Some f
                        \<and> p = ''processed/'' @ image_id img @ ''.'' @ f
                        \<and> contentType opts = ''image/'' @ f))"
  proof
    fix c assume "c \<in> set ?cs"
    from process_calls_expected[OF assms this]
    show "(\<forall>q. c = CallJpeg q \<longrightarrow> effective_targetFormat img s = Some ''jpeg'')
          \<and> (\<forall>l. c = CallPng l \<longrightarrow> effective_targetFormat img s = Some ''png'')
          \<and> (\<forall>p b opts. c = CallPut p b opts
                \<longrightarrow> (\<exists>f. effective_targetFormat img s = Some f
                        \<and> p = ''processed/'' @ image_id img @ ''.'' @ f
                        \<and> contentType opts = ''image/'' @ f))"
      by (auto simp: expected_call_def processed_put_options_def split: option.splits)
  qed
  have png: "effective_targetFormat img s = Some ''png''"
    if "targetFormat s = original" "originalFormat img = ''image/png''"
    using that by (simp add: effective_targetFormat_spec mime_subtype_def)
  have made: "\<exists>l. CallPng l \<in> set ?cs"
    if e: "effective_targetFormat img s = Some ''png''"
      and f: "fetchBlob env ?u = Inr b" and n: "sharp env b = None" for b
  proof (cases rule: prepare_cases[of env ?u img s])
    case (configured b' tf cs r)
    with f e have c: "configure env s b ''png'' = (cs, r)" by simp
    from configure_png_call[OF c] configured(6) show ?thesis
      by (auto simp: process_POST_calls[OF assms] try_block_calls split: sum.splits)
  next
    case (unsupported b')
    with e show ?thesis by (simp add: supported_def MVP_PROCESS_FORMATS_def)
  qed (use f n in auto)
  from effective_targetFormat_spec[of img s] calls png made show ?thesis
    by blast
qed

theorem effective_target_format_resolution_witness:
  "truthy (blobUrl sample_image)
   \<and> targetFormat sample_settings = original
   \<and> originalFormat sample_image = ''image/png''
   \<and> effective_targetFormat sample_image sample_settings = Some ''png''
   \<and> (\<exists>l. CallPng l \<in> set (snd (process_POST sample_env
           (Inr \<lparr>imageFile = Some sample_image, settings = Some sample_settings\<rparr>))))
   \<and> effective_targetFormat sample_image (sample_settings\<lparr>targetFormat := jpeg\<rparr>)
       = Some ''jpeg''
   \<and> effective_targetFormat sample_image (sample_settings\<lparr>targetFormat := avif\<rparr>)
       = Some ''avif''"
proof -
  have o: "targetFormat sample_settings = original" "originalFormat sample_image = ''image/png''"
    by (simp_all add: sample_settings_def sample_image_def)
  have n: "sharp sample_env (replicate 1000 0) = None" by (simp add: sample_env_def)
  note t = effective_target_format_resolution[OF sample_checked, where env = sample_env]
  from t[where s = sample_settings] o
  have e: "effective_targetFormat sample_image sample_settings = Some ''png''"
    by blast
  from t[where s = sample_settings] o sample_fetch n
  have c: "\<exists>l. CallPng l \<in> set (snd (process_POST sample_env
           (Inr \<lparr>imageFile = Some sample_image, settings = Some sample_settings\<rparr>)))"
    by blast
  from t[where s = "sample_settings\<lparr>targetFormat := jpeg\<rparr>"]
  have j: "effective_targetFormat sample_image (sample_settings\<lparr>targetFormat := jpeg\<rparr>)
       = Some ''jpeg''"
    by (simp add: format_name_def)
  from t[where s = "sample_settings\<lparr>targetFormat := avif\<rparr>"]
  have a: "effective_targetFormat sample_image (sample_settings\<lparr>targetFormat := avif\<rparr>)
       = Some ''avif''"
    by (simp add: format_name_def)
  from sample_checked(3) o e c j a show ?thesis by simp
qed

text \<open>
  C6. In every response for a successfully processed record (status 200),
  \<open>compressedSize\<close> is present and \<open>compressionRatio\<close> is
  \<open>(1 - compressedSize/originalSize) * 100\<close> evaluated in doubles (the quotient, the
  difference and the product each rounded to the nearest double) when \<open>originalSize > 0\<close>,
  and \<open>0\<close> when \<open>originalSize\<close> is \<open>0\<close> (the division is then not made). An original size of
  1000 with a compressed size of 400 gives exactly 60; equal sizes give 0 and a compressed
  size of 0 gives 100.
\<close>

theorem compression_ratio_of_completed_record:
  assumes "fst (process_POST env request_json) = Inr resp" and "status_code resp = 200"
  shows
    "\<exists>r c. body resp = ImageFileJson r
       \<and> status r = completed
       \<and> compressedSize r = Some c \<and> 0 \<le> c
       \<and> (0 < originalSize r
            \<longrightarrow> compressionRatio r =
                  Some (binary64
                          (binary64 (1 - binary64 (of_int c / of_int (originalSize r))) * 100)))
       \<and> (originalSize r \<le> 0 \<longrightarrow> compressionRatio r = Some 0)
       \<and> (originalSize r = 1000 \<and> c = 400 \<longrightarrow> compressionRatio r = Some 60)
       \<and> (0 < originalSize r \<and> c = originalSize r \<longrightarrow> compressionRatio r = Some 0)
       \<and> (0 < originalSize r \<and> c = 0 \<longrightarrow> compressionRatio r = Some 100)"
  using assms
proof (elim process_POST_200)
  fix rq img s cs1 inst tf cs2 buf blob
  assume r: "resp = \<lparr>status_code = 200,
             body = ImageFileJson
               (img\<lparr> compressedSize := Some (int (length buf)),
                     compressionRatio :=
                       Some (compression_ratio (int (length buf)) (originalSize img)),
                     status := completed,
                     metadata := merged_metadata img s,
                     processingSettings := Some s,
                     downloadUrl := Some (url blob),
                     processingTimeMs := Some (date_now_end env - date_now_start env) \<rparr>)\<rparr>"
  define c where "c = int (length buf)"
  define rec where "rec =
    img\<lparr> compressedSize := Some c,
          compressionRatio := Some (compression_ratio c (originalSize img)),
          status := completed,
          metadata := merged_metadata img s,
          processingSettings := Some s,
          downloadUrl := Some (url blob),
          processingTimeMs := Some (date_now_end env - date_now_start env) \<rparr>"
  have f: "body resp = ImageFileJson rec" "status rec = completed"
    "compressedSize rec = Some c" "0 \<le> c"
    by (simp_all add: r rec_def c_def)
  have g: "compressionRatio rec = Some (compression_ratio c (originalSize rec))"
    by (simp add: rec_def)
  have 1: "0 < originalSize rec \<longrightarrow> compressionRatio rec =
      Some (binary64 (binary64 (1 - binary64 (of_int c / of_int (originalSize rec))) * 100))"
    unfolding g by (simp add: compression_ratio_def js_divide_def js_minus_def js_times_def)
  have 2: "originalSize rec \<le> 0 \<longrightarrow> compressionRatio rec = Some 0"
    unfolding g by (simp add: compression_ratio_not_positive)
  have 3: "originalSize rec = 1000 \<and> c = 400 \<longrightarrow> compressionRatio rec = Some 60"
    unfolding g using compression_ratio_400_1000 by simp
  have 4: "0 < originalSize rec \<and> c = originalSize rec \<longrightarrow> compressionRatio rec = Some 0"
    unfolding g using compression_ratio_nothing_saved by simp
  have 5: "0 < originalSize rec \<and> c = 0 \<longrightarrow> compressionRatio rec = Some 100"
    unfolding g using compression_ratio_everything_saved by simp
  from f 1 2 3 4 5 show ?thesis by blast
qed

theorem compression_ratio_of_completed_record_witness:
  "fst (process_POST sample_env
         (Inr \<lparr>imageFile = Some sample_image, settings = Some sample_settings\<rparr>))
     = Inr \<lparr>status_code = 200, body = ImageFileJson sample_completed\<rparr>
   \<and> originalSize sample_completed = 1000
   \<and> compressedSize sample_completed = Some 400
   \<and> compressionRatio sample_completed = Some 60
   \<and> compressionRatio sample_completed
       = Some (binary64 (binary64 (1 - binary64 (400 / 1000)) * 100))
   \<and> fst (process_POST sample_env
         (Inr \<lparr>imageFile = Some (sample_image\<lparr>originalSize := 0\<rparr>),
                settings = Some sample_settings\<rparr>))
     = Inr \<lparr>status_code = 200,
            body = ImageFileJson
              (sample_completed\<lparr>originalSize := 0, compressionRatio := Some 0\<rparr>)\<rparr>
   \<and> compressionRatio (sample_completed\<lparr>originalSize := 0, compressionRatio := Some 0\<rparr>)
       = Some 0"
proof -
  have o: "originalSize sample_completed = 1000" "compressedSize sample_completed = Some 400"
    by (simp_all add: sample_completed_def sample_image_def)
  from compression_ratio_of_completed_record[OF sample_response] o
  have a: "compressionRatio sample_completed = Some 60
      \<and> compressionRatio sample_completed
          = Some (binary64 (binary64 (1 - binary64 (400 / 1000)) * 100))"
    by auto
  from compression_ratio_of_completed_record[OF sample_response_zero]
  have z: "compressionRatio (sample_completed\<lparr>originalSize := 0, compressionRatio := Some 0\<rparr>)
       = Some 0"
    by auto
  from sample_response o a sample_response_zero z show ?thesis
    by blast
qed

text \<open>
  The formula in exact arithmetic does not give the handler's value: with an original size
  of 1000 and an encoded buffer of 930 bytes the response has the ratio
  \<open>3940649673949181 / 2^49\<close>, the double \<open>6.999999999999995\<close>, where the exact formula gives 7.
\<close>

theorem compression_ratio_exact_counterexample:
  "fst (process_POST sample_env_930
         (Inr \<lparr>imageFile = Some sample_image, settings = Some sample_settings\<rparr>))
     = Inr \<lparr>status_code = 200,
            body = ImageFileJson
              (sample_completed
                 \<lparr> compressedSize := Some 930,
                   compressionRatio := Some (3940649673949181 / 562949953421312) \<rparr>)\<rparr>
   \<and> originalSize
        (sample_completed
           \<lparr> compressedSize := Some 930,
             compressionRatio := Some (3940649673949181 / 562949953421312) \<rparr>) = 1000
   \<and> spec_ratio 930 1000 = 7
   \<and> compressionRatio
        (sample_completed
           \<lparr> compressedSize := Some 930,
             compressionRatio := Some (3940649673949181 / 562949953421312) \<rparr>)
       \<noteq> Some (spec_ratio 930 1000)"
  using sample_response_930
  by (simp add: spec_ratio_def sample_completed_def sample_image_def)

text \<open>
  C7. A record that is processed again after a failed attempt still has that attempt's
  \<open>errorMessage\<close>, and a record that is processed again after a completed attempt still has
  its \<open>downloadUrl\<close>: the handler spreads the input record under the properties it assigns
  and removes neither. Here the sample record is sent with \<open>status = failed\<close> and an
  \<open>errorMessage\<close>, and the processing succeeds: the response has \<open>status = completed\<close> and
  the old \<open>errorMessage\<close>. Then the completed sample record is sent and the fetch fails: the
  response has \<open>status = failed\<close> and the old \<open>downloadUrl\<close>.
\<close>

theorem reprocessed_record_keeps_stale_fields:
  "fst (process_POST sample_env
         (Inr \<lparr>imageFile =
                  Some (sample_image
                          \<lparr>status := failed,
                           errorMessage := Some ''Failed to fetch blob: Not Found''\<rparr>),
                settings = Some sample_settings\<rparr>))
     = Inr \<lparr>status_code = 200,
            body = ImageFileJson
              (sample_completed\<lparr>errorMessage := Some ''Failed to fetch blob: Not Found''\<rparr>)\<rparr>
   \<and> status (sample_completed\<lparr>errorMessage := Some ''Failed to fetch blob: Not Found''\<rparr>)
       = completed
   \<and> errorMessage (sample_completed\<lparr>errorMessage := Some ''Failed to fetch blob: Not Found''\<rparr>)
       = Some ''Failed to fetch blob: Not Found''
   \<and> fst (process_POST sample_env_fetch_fails
            (Inr \<lparr>imageFile = Some sample_completed, settings = Some sample_settings\<rparr>))
       = Inr \<lparr>status_code = 500,
              body = ImageFileJson
                (sample_completed
                   \<lparr> status := failed,
                     errorMessage := Some ''Failed to fetch blob: Not Found'',
                     processingTimeMs := Some 250 \<rparr>)\<rparr>
   \<and> downloadUrl (sample_completed
                     \<lparr> status := failed,
                       errorMessage := Some ''Failed to fetch blob: Not Found'',
                       processingTimeMs := Some 250 \<rparr>)
       = Some ''https://store/processed/uploads/a1.png.png''"
proof -
  have l: "pngCompressionLevel 60 = 4"
    by (simp add: pngCompressionLevel_spec spec_png_level_closed)
  have a: "fst (process_POST sample_env
         (Inr \<lparr>imageFile =
                  Some (sample_image
                          \<lparr>status := failed,
                           errorMessage := Some ''Failed to fetch blob: Not Found''\<rparr>),
                settings = Some sample_settings\<rparr>))
     = Inr \<lparr>status_code = 200,
            body = ImageFileJson
              (sample_completed\<lparr>errorMessage := Some ''Failed to fetch blob: Not Found''\<rparr>)\<rparr>"
    by (simp add: process_POST_def try_block_def prepare_def fetchBlob_def truthy_def
        supported_def effective_targetFormat_def index_opt_def MVP_PROCESS_FORMATS_def
        configure_def apply_format_def apply_metadata_def metadataToEmbed_def
        encode_and_store_def processed_put_options_def l Let_def merged_metadata_def
        compression_ratio_400_1000 compression_ratio_not_positive spread_merge_def empty_update_def sample_completed_def
        sample_env_def sample_image_def sample_settings_def)
  have b: "fst (process_POST sample_env_fetch_fails
            (Inr \<lparr>imageFile = Some sample_completed, settings = Some sample_settings\<rparr>))
       = Inr \<lparr>status_code = 500,
              body = ImageFileJson
                (sample_completed
                   \<lparr> status := failed,
                     errorMessage := Some ''Failed to fetch blob: Not Found'',
                     processingTimeMs := Some 250 \<rparr>)\<rparr>"
    by (simp add: process_POST_def try_block_def prepare_def fetchBlob_def truthy_def
        spread_merge_def empty_update_def error_message_of_def sample_completed_def
        sample_env_fetch_fails_def sample_env_def sample_image_def)
  from a b show ?thesis
    by (simp add: sample_completed_def sample_image_def)
qed

text \<open>
  C8. In the response for a successfully processed record (status 200), the metadata has
  the title and the description of the request's metadata, every other metadata field is
  the input record's, and \<open>id\<close>, \<open>originalName\<close>, \<open>originalSize\<close>, \<open>originalFormat\<close> and
  \<open>blobUrl\<close> are the input record's.
\<close>

theorem completed_record_frame:
  assumes "fst (process_POST env (Inr rq)) = Inr resp" and "status_code resp = 200"
  shows
    "\<exists>img s r. imageFile rq = Some img \<and> settings rq = Some s \<and> body resp = ImageFileJson r
       \<and> title (metadata r) = title (settings_metadata s)
       \<and> description (metadata r) = description (settings_metadata s)
       \<and> author (metadata r) = author (metadata img)
       \<and> copyright (metadata r) = copyright (metadata img)
       \<and> keywords_list (metadata r) = keywords_list (metadata img)
       \<and> customFields (metadata r) = customFields (metadata img)
       \<and> image_id r = image_id img
       \<and> originalName r = originalName img
       \<and> originalSize r = originalSize img
       \<and> originalFormat r = originalFormat img
       \<and> blobUrl r = blobUrl img"
  using assms
  by (elim process_POST_200) (auto simp: merged_metadata_def)

theorem completed_record_frame_witness:
  "fst (process_POST sample_env
         (Inr \<lparr>imageFile = Some sample_image, settings = Some sample_settings\<rparr>))
     = Inr \<lparr>status_code = 200, body = ImageFileJson sample_completed\<rparr>
   \<and> title (metadata sample_image) = Some ''Old''
   \<and> title (settings_metadata sample_settings) = Some ''Sunset''
   \<and> title (metadata sample_completed) = Some ''Sunset''
   \<and> author (metadata sample_completed) = Some ''Ann''
   \<and> image_id sample_completed = image_id sample_image
   \<and> blobUrl sample_completed = blobUrl sample_image"
proof -
  have t: "title (metadata sample_image) = Some ''Old''"
    "title (settings_metadata sample_settings) = Some ''Sunset''"
    "author (metadata sample_image) = Some ''Ann''"
    by (simp_all add: sample_image_def sample_settings_def)
  from completed_record_frame[OF sample_response] t
  have "title (metadata sample_completed) = Some ''Sunset''
      \<and> author (metadata sample_completed) = Some ''Ann''
      \<and> image_id sample_completed = image_id sample_image
      \<and> blobUrl sample_completed = blobUrl sample_image"
    by auto
  with sample_response t show ?thesis by simp
qed

text \<open>
  C9. When uploaded records are merged into the client's list, the list keeps its records
  and the new records are appended in their order, except those whose storage reference
  (\<open>blobUrl\<close>) already occurs in the list, which are dropped. The key is the storage
  reference and not the id: whether a record is appended depends on its \<open>blobUrl\<close> alone.
\<close>

theorem uploaded_records_deduplicated_by_blobUrl:
  "files (handleFilesUploaded st uploadedFiles) = files st @ new_records (files st) uploadedFiles
   \<and> subseq (new_records (files st) uploadedFiles) uploadedFiles
   \<and> (\<forall>f \<in> set uploadedFiles.
         f \<in> set (new_records (files st) uploadedFiles)
         \<longleftrightarrow> \<not> (\<exists>g \<in> set (files st). blobUrl g = blobUrl f))
   \<and> (\<forall>f \<in> set uploadedFiles. \<forall>i.
         f\<lparr>image_id := i\<rparr> \<in> set (new_records (files st) (map (\<lambda>r. r\<lparr>image_id := i\<rparr>) uploadedFiles))
         \<longleftrightarrow> f \<in> set (new_records (files st) uploadedFiles))"
proof -
  have 1: "files (handleFilesUploaded st uploadedFiles)
      = files st @ new_records (files st) uploadedFiles"
    by (simp add: handleFilesUploaded_def new_records_filter Let_def)
  have 2: "subseq (new_records (files st) uploadedFiles) uploadedFiles"
    by (simp add: new_records_filter)
  have 3: "\<forall>f \<in> set uploadedFiles.
         f \<in> set (new_records (files st) uploadedFiles)
         \<longleftrightarrow> \<not> (\<exists>g \<in> set (files st). blobUrl g = blobUrl f)"
    by (simp add: new_records_filter occurs_iff)
  have 4: "\<forall>f \<in> set uploadedFiles. \<forall>i.
         f\<lparr>image_id := i\<rparr> \<in> set (new_records (files st) (map (\<lambda>r. r\<lparr>image_id := i\<rparr>) uploadedFiles))
         \<longleftrightarrow> f \<in> set (new_records (files st) uploadedFiles)"
    by (auto simp: new_records_filter)
  from 1 2 3 4 show ?thesis by blast
qed

theorem uploaded_records_deduplicated_by_blobUrl_witness:
  "files sample_page = [sample_uploaded]
   \<and> image_id sample_same_id = image_id sample_uploaded
   \<and> blobUrl sample_same_id \<noteq> blobUrl sample_uploaded
   \<and> image_id sample_same_blobUrl \<noteq> image_id sample_uploaded
   \<and> blobUrl sample_same_blobUrl = blobUrl sample_uploaded
   \<and> files (handleFilesUploaded sample_page [sample_same_blobUrl, sample_same_id, sample_uploaded])
       = [sample_uploaded, sample_same_id]"
proof -
  have f: "files sample_page = [sample_uploaded]" by (simp add: sample_page_def)
  have k: "image_id sample_same_id = image_id sample_uploaded"
    "blobUrl sample_same_id \<noteq> blobUrl sample_uploaded"
    "image_id sample_same_blobUrl \<noteq> image_id sample_uploaded"
    "blobUrl sample_same_blobUrl = blobUrl sample_uploaded"
    by (simp_all add: sample_same_id_def sample_same_blobUrl_def sample_uploaded_def
        imageFileInfo_def)
  from uploaded_records_deduplicated_by_blobUrl[of sample_page
      "[sample_same_blobUrl, sample_same_id, sample_uploaded]"]
  have "files (handleFilesUploaded sample_page [sample_same_blobUrl, sample_same_id, sample_uploaded])
       = [sample_uploaded] @ new_records [sample_uploaded]
           [sample_same_blobUrl, sample_same_id, sample_uploaded]"
    by (simp add: f)
  with k have "files (handleFilesUploaded sample_page
                  [sample_same_blobUrl, sample_same_id, sample_uploaded])
       = [sample_uploaded, sample_same_id]"
    by simp
  with f k show ?thesis by simp
qed

text \<open>
  C10. A process request that fails at the encoding or at the store is answered with a
  failed record whose metadata already has the request's title and description (the other
  metadata fields being the input record's): the metadata is assigned at lines 81 to 85,
  before the image is encoded. A request that fails anywhere before that assignment is
  answered with a failed record whose metadata is the input record's: at the fetch, at the
  resolution of the format, and also at the constructor of the encoder (line 34), at its
  \<^verbatim>\<open>jpeg\<close> or \<^verbatim>\<open>png\<close> call (lines 51 and 55) and at its \<^verbatim>\<open>withMetadata\<close> call
  (line 77). A failed record whose metadata differs from the input record's was produced
  after the fetch, the resolution of the format and the configuration of the encoder had
  all succeeded.
\<close>

theorem failed_record_metadata:
  assumes "imageFile rq = Some img" and "settings rq = Some s" and "truthy (blobUrl img)"
  shows
    "(\<forall>cs inst tf e.
        prepare env img s (the (blobUrl img)) = (cs, Inr (inst, tf))
        \<and> sharp_toBuffer env inst = Inl e
        \<longrightarrow> fst (process_POST env (Inr rq)) =
              Inr \<lparr>status_code = 500,
                    body = ImageFileJson (failed_record env img e (merged_metadata img s))\<rparr>)
     \<and> (\<forall>cs inst tf b e.
        prepare env img s (the (blobUrl img)) = (cs, Inr (inst, tf))
        \<and> sharp_toBuffer env inst = Inr b
        \<and> put env (''processed/'' @ image_id img @ ''.'' @ tf) b (processed_put_options tf)
             = Inl e
        \<longrightarrow> fst (process_POST env (Inr rq)) =
              Inr \<lparr>status_code = 500,
                    body = ImageFileJson (failed_record env img e (merged_metadata img s))\<rparr>)
     \<and> (\<forall>e. fetchBlob env (the (blobUrl img)) = Inl e
        \<longrightarrow> fst (process_POST env (Inr rq)) =
              Inr \<lparr>status_code = 500,
                    body = ImageFileJson (failed_record env img e (metadata img))\<rparr>)
     \<and> (\<forall>b. fetchBlob env (the (blobUrl img)) = Inr b \<and> sharp env b = None
             \<and> \<not> supported (effective_targetFormat img s)
        \<longrightarrow> fst (process_POST env (Inr rq)) =
              Inr \<lparr>status_code = 500,
                    body = ImageFileJson
                      (failed_record env img
                         (Error (unsupported_format_message (effective_targetFormat img s)))
                         (metadata img))\<rparr>)
     \<and> (\<forall>cs e. prepare env img s (the (blobUrl img)) = (cs, Inl e)
        \<longrightarrow> fst (process_POST env (Inr rq)) =
              Inr \<lparr>status_code = 500,
                    body = ImageFileJson (failed_record env img e (metadata img))\<rparr>)
     \<and> (\<forall>b e. fetchBlob env (the (blobUrl img)) = Inr b \<and> sharp env b = Some e
        \<longrightarrow> fst (process_POST env (Inr rq)) =
              Inr \<lparr>status_code = 500,
                    body = ImageFileJson (failed_record env img e (metadata img))\<rparr>)
     \<and> (\<forall>b e. fetchBlob env (the (blobUrl img)) = Inr b \<and> sharp env b = None
             \<and> effective_targetFormat img s = Some ''jpeg''
             \<and> sharp_jpeg env (quality s) = Some e
        \<longrightarrow> fst (process_POST env (Inr rq)) =
              Inr \<lparr>status_code = 500,
                    body = ImageFileJson (failed_record env img e (metadata img))\<rparr>)
     \<and> (\<forall>b e. fetchBlob env (the (blobUrl img)) = Inr b \<and> sharp env b = None
             \<and> effective_targetFormat img s = Some ''png''
             \<and> sharp_png env (pngCompressionLevel (quality s)) = Some e
        \<longrightarrow> fst (process_POST env (Inr rq)) =
              Inr \<lparr>status_code = 500,
                    body = ImageFileJson (failed_record env img e (metadata img))\<rparr>)
     \<and> (\<forall>b tf cs inst m e. fetchBlob env (the (blobUrl img)) = Inr b \<and> sharp env b = None
             \<and> effective_targetFormat img s = Some tf \<and> tf \<in> set MVP_PROCESS_FORMATS
             \<and> apply_format env s tf
                   \<lparr>input_buffer = b, output_format = None, embedded = None\<rparr> = (cs, Inr inst)
             \<and> metadataToEmbed s = Some m \<and> sharp_withMetadata env m = Some e
        \<longrightarrow> fst (process_POST env (Inr rq)) =
              Inr \<lparr>status_code = 500,
                    body = ImageFileJson (failed_record env img e (metadata img))\<rparr>)
     \<and> title (merged_metadata img s) = title (settings_metadata s)
     \<and> description (merged_metadata img s) = description (settings_metadata s)
     \<and> author (merged_metadata img s) = author (metadata img)
     \<and> copyright (merged_metadata img s) = copyright (metadata img)
     \<and> keywords_list (merged_metadata img s) = keywords_list (metadata img)
     \<and> customFields (merged_metadata img s) = customFields (metadata img)
     \<and> (\<forall>e m. metadata (failed_record env img e m) = m
              \<and> status (failed_record env img e m) = failed)
     \<and> (\<forall>r. fst (process_POST env (Inr rq)) = Inr \<lparr>status_code = 500, body = ImageFileJson r\<rparr>
              \<and> metadata r \<noteq> metadata img
        \<longrightarrow> metadata r = merged_metadata img s
            \<and> (\<exists>cs inst tf. prepare env img s (the (blobUrl img)) = (cs, Inr (inst, tf))))"
proof -
  let ?u = "the (blobUrl img)"
  let ?res = "fst (process_POST env (Inr rq))"
  have enc: "?res = Inr \<lparr>status_code = 500,
        body = ImageFileJson (failed_record env img e (merged_metadata img s))\<rparr>"
    if "prepare env img s ?u = (cs, Inr (inst, tf))" "sharp_toBuffer env inst = Inl e"
    for cs inst tf e
    using caught_produce[OF assms that(1) encode_failed[OF that(2)]] by simp
  have sto: "?res = Inr \<lparr>status_code = 500,
        body = ImageFileJson (failed_record env img e (merged_metadata img s))\<rparr>"
    if "prepare env img s ?u = (cs, Inr (inst, tf))" "sharp_toBuffer env inst = Inr b"
      "put env (''processed/'' @ image_id img @ ''.'' @ tf) b (processed_put_options tf) = Inl e"
    for cs inst tf b e
    using caught_produce[OF assms that(1) store_failed[OF that(2,3)]] by simp
  have fet: "?res = Inr \<lparr>status_code = 500,
        body = ImageFileJson (failed_record env img e (metadata img))\<rparr>"
    if "fetchBlob env ?u = Inl e" for e
    using caught_prepare[OF assms prepare_fetch_failed[OF that]] by simp
  have uns: "?res = Inr \<lparr>status_code = 500,
        body = ImageFileJson
          (failed_record env img
             (Error (unsupported_format_message (effective_targetFormat img s)))
             (metadata img))\<rparr>"
    if "fetchBlob env ?u = Inr b" "sharp env b = None"
      "\<not> supported (effective_targetFormat img s)" for b
    using caught_prepare[OF assms prepare_unsupported[OF that]] by simp
  have m: "title (merged_metadata img s) = title (settings_metadata s)"
    "description (merged_metadata img s) = description (settings_metadata s)"
    "author (merged_metadata img s) = author (metadata img)"
    "copyright (merged_metadata img s) = copyright (metadata img)"
    "keywords_list (merged_metadata img s) = keywords_list (metadata img)"
    "customFields (merged_metadata img s) = customFields (metadata img)"
    by (simp_all add: merged_metadata_def)
  have f: "\<forall>e m. metadata (failed_record env img e m) = m
      \<and> status (failed_record env img e m) = failed"
    by (simp add: failed_record_def)
  have conv: "metadata r = merged_metadata img s
      \<and> (\<exists>cs inst tf. prepare env img s ?u = (cs, Inr (inst, tf)))"
    if r: "?res = Inr \<lparr>status_code = 500, body = ImageFileJson r\<rparr>"
      and d: "metadata r \<noteq> metadata img" for r
  proof (cases rule: try_block_cases[of env img s ?u])
    case (prepare_failed cs e)
    from caught_prepare[OF assms prepare_failed(1)] r d show ?thesis
      by (auto simp: failed_record_def)
  next
    case (produce_failed cs1 inst tf cs2 e)
    from caught_produce[OF assms produce_failed(1,2)] r produce_failed(1) show ?thesis
      by (auto simp: failed_record_def)
  next
    case (succeeded cs1 inst tf cs2 buf blob)
    with r show ?thesis
      by (auto simp: process_POST_checked[OF assms])
  qed
  have pre: "?res = Inr \<lparr>status_code = 500,
        body = ImageFileJson (failed_record env img e (metadata img))\<rparr>"
    if "prepare env img s ?u = (cs, Inl e)" for cs e
    using caught_prepare[OF assms that] by simp
  have ctor: "?res = Inr \<lparr>status_code = 500,
        body = ImageFileJson (failed_record env img e (metadata img))\<rparr>"
    if "fetchBlob env ?u = Inr b" "sharp env b = Some e" for b e
    using that by (intro pre[of "[CallFetch ?u, CallSharp b]"]) (simp add: prepare_def)
  have conf: "?res = Inr \<lparr>status_code = 500,
        body = ImageFileJson (failed_record env img e (metadata img))\<rparr>"
    if "fetchBlob env ?u = Inr b" "sharp env b = None"
      "effective_targetFormat img s = Some tf" "tf \<in> set MVP_PROCESS_FORMATS"
      "configure env s b tf = (cs, Inl e)" for b tf cs e
    using that
    by (intro pre[of "[CallFetch ?u, CallSharp b] @ cs"]) (simp add: prepare_def supported_def)
  have jpg: "?res = Inr \<lparr>status_code = 500,
        body = ImageFileJson (failed_record env img e (metadata img))\<rparr>"
    if "fetchBlob env ?u = Inr b" "sharp env b = None"
      "effective_targetFormat img s = Some ''jpeg''" "sharp_jpeg env (quality s) = Some e"
    for b e
    using that(4)
    by (intro conf[OF that(1-3), of "[CallJpeg (quality s)]"])
       (simp_all add: MVP_PROCESS_FORMATS_def configure_def apply_format_def)
  have png: "?res = Inr \<lparr>status_code = 500,
        body = ImageFileJson (failed_record env img e (metadata img))\<rparr>"
    if "fetchBlob env ?u = Inr b" "sharp env b = None"
      "effective_targetFormat img s = Some ''png''"
      "sharp_png env (pngCompressionLevel (quality s)) = Some e"
    for b e
    using that(4)
    by (intro conf[OF that(1-3), of "[CallPng (pngCompressionLevel (quality s))]"])
       (simp_all add: MVP_PROCESS_FORMATS_def configure_def apply_format_def)
  have wm: "?res = Inr \<lparr>status_code = 500,
        body = ImageFileJson (failed_record env img e (metadata img))\<rparr>"
    if "fetchBlob env ?u = Inr b" "sharp env b = None"
      "effective_targetFormat img s = Some tf" "tf \<in> set MVP_PROCESS_FORMATS"
      "apply_format env s tf \<lparr>input_buffer = b, output_format = None, embedded = None\<rparr>
         = (cs, Inr inst)"
      "metadataToEmbed s = Some m" "sharp_withMetadata env m = Some e"
    for b tf cs inst m e
    using that(5-7)
    by (intro conf[OF that(1-4), of "cs @ [CallWithMetadata m]"])
       (simp add: configure_def apply_metadata_def)
  show ?thesis
    apply (intro conjI)
    subgoal using enc by blast
    subgoal using sto by blast
    subgoal using fet by blast
    subgoal using uns by blast
    subgoal using pre by blast
    subgoal using ctor by blast
    subgoal using jpg by blast
    subgoal using png by blast
    subgoal using wm by blast
    subgoal by (rule m)
    subgoal by (rule m)
    subgoal by (rule m)
    subgoal by (rule m)
    subgoal by (rule m)
    subgoal by (rule m)
    subgoal by (rule f)
    subgoal using conv by blast
    done
qed

theorem failed_record_metadata_witness:
  "truthy (blobUrl sample_image)
   \<and> sharp_toBuffer sample_env_encode_fails
        \<lparr> input_buffer = replicate 1000 0, output_format = Some (PngOptions 4),
          embedded = Some \<lparr>ImageDescription = Some ''Sunset'', UserComment = None\<rparr> \<rparr>
       = Inl (Error ''Input buffer contains unsupported image format'')
   \<and> fst (process_POST sample_env_encode_fails
            (Inr \<lparr>imageFile = Some sample_image, settings = Some sample_settings\<rparr>))
       = Inr \<lparr>status_code = 500,
              body = ImageFileJson
                (sample_image
                   \<lparr> status := failed,
                     errorMessage := Some ''Input buffer contains unsupported image format'',
                     processingTimeMs := Some 250,
                     metadata := \<lparr> title = Some ''Sunset'', description = None,
                                    author = Some ''Ann'', copyright = None,
                                    keywords_list = None, customFields = None \<rparr> \<rparr>)\<rparr>
   \<and> fst (process_POST sample_env_store_fails
            (Inr \<lparr>imageFile = Some sample_image, settings = Some sample_settings\<rparr>))
       = Inr \<lparr>status_code = 500,
              body = ImageFileJson
                (sample_image
                   \<lparr> status := failed,
                     errorMessage := Some ''Unknown processing error'',
                     processingTimeMs := Some 250,
                     metadata := \<lparr> title = Some ''Sunset'', description = None,
                                    author = Some ''Ann'', copyright = None,
                                    keywords_list = None, customFields = None \<rparr> \<rparr>)\<rparr>
   \<and> title (metadata sample_image) = Some ''Old''
   \<and> fetchBlob sample_env_fetch_fails (the (blobUrl sample_image))
       = Inl (Error ''Failed to fetch blob: Not Found'')
   \<and> fst (process_POST sample_env_fetch_fails
            (Inr \<lparr>imageFile = Some sample_image, settings = Some sample_settings\<rparr>))
       = Inr \<lparr>status_code = 500,
              body = ImageFileJson
                (sample_image
                   \<lparr> status := failed,
                     errorMessage := Some ''Failed to fetch blob: Not Found'',
                     processingTimeMs := Some 250 \<rparr>)\<rparr>
   \<and> fst (process_POST sample_env
            (Inr \<lparr>imageFile = Some sample_image,
                   settings = Some (sample_settings\<lparr>targetFormat := avif\<rparr>)\<rparr>))
       = Inr \<lparr>status_code = 500,
              body = ImageFileJson
                (sample_image
                   \<lparr> status := failed,
                     errorMessage := Some ''Unsupported target format for MVP: avif. Only jpeg and png are supported initially.'',
                     processingTimeMs := Some 250 \<rparr>)\<rparr>
   \<and> effective_targetFormat sample_image sample_settings_jpeg_0 = Some ''jpeg''
   \<and> sharp_jpeg sample_env_strict_jpeg (quality sample_settings_jpeg_0)
       = Some (Error ''Expected integer between 1 and 100 for quality'')
   \<and> fst (process_POST sample_env_strict_jpeg
            (Inr \<lparr>imageFile = Some sample_image, settings = Some sample_settings_jpeg_0\<rparr>))
       = Inr \<lparr>status_code = 500,
              body = ImageFileJson
                (sample_image
                   \<lparr> status := failed,
                     errorMessage := Some ''Expected integer between 1 and 100 for quality'',
                     processingTimeMs := Some 250 \<rparr>)\<rparr>"
proof -
  let ?rq = "\<lparr>imageFile = Some sample_image, settings = Some sample_settings\<rparr>"
  let ?a = "sample_settings\<lparr>targetFormat := avif\<rparr>"
  let ?inst = "\<lparr> input_buffer = replicate 1000 0, output_format = Some (PngOptions 4),
          embedded = Some \<lparr>ImageDescription = Some ''Sunset'', UserComment = None\<rparr> \<rparr>"
  have o: "title (metadata sample_image) = Some ''Old''" by (simp add: sample_image_def)
  have n: "sharp sample_env (replicate 1000 0) = None" by (simp add: sample_env_def)
  have u: "\<not> supported (effective_targetFormat sample_image ?a)"
    by (simp add: supported_def effective_targetFormat_def format_name_def
        MVP_PROCESS_FORMATS_def)
  note m = failed_record_metadata[OF sample_checked]
  from m[where s = sample_settings and env = sample_env_encode_fails, THEN conjunct1]
    sample_prepare_encode_fails sample_encode_fails
  have "fst (process_POST sample_env_encode_fails (Inr ?rq))
      = Inr \<lparr>status_code = 500,
             body = ImageFileJson
               (failed_record sample_env_encode_fails sample_image
                  (Error ''Input buffer contains unsupported image format'')
                  (merged_metadata sample_image sample_settings))\<rparr>"
    by blast
  then have e: "fst (process_POST sample_env_encode_fails (Inr ?rq))
       = Inr \<lparr>status_code = 500,
              body = ImageFileJson
                (sample_image
                   \<lparr> status := failed,
                     errorMessage := Some ''Input buffer contains unsupported image format'',
                     processingTimeMs := Some 250,
                     metadata := \<lparr> title = Some ''Sunset'', description = None,
                                    author = Some ''Ann'', copyright = None,
                                    keywords_list = None, customFields = None \<rparr> \<rparr>)\<rparr>"
    by (simp add: failed_record_def merged_metadata_def error_message_of_def
        sample_env_encode_fails_def sample_env_def sample_image_def sample_settings_def)
  from m[where s = sample_settings and env = sample_env_store_fails, THEN conjunct2, THEN conjunct1]
    sample_prepare_store_fails sample_store_fails
  have "fst (process_POST sample_env_store_fails (Inr ?rq))
      = Inr \<lparr>status_code = 500,
             body = ImageFileJson
               (failed_record sample_env_store_fails sample_image NonError
                  (merged_metadata sample_image sample_settings))\<rparr>"
    by blast
  then have s: "fst (process_POST sample_env_store_fails (Inr ?rq))
       = Inr \<lparr>status_code = 500,
              body = ImageFileJson
                (sample_image
                   \<lparr> status := failed,
                     errorMessage := Some ''Unknown processing error'',
                     processingTimeMs := Some 250,
                     metadata := \<lparr> title = Some ''Sunset'', description = None,
                                    author = Some ''Ann'', copyright = None,
                                    keywords_list = None, customFields = None \<rparr> \<rparr>)\<rparr>"
    by (simp add: failed_record_def merged_metadata_def error_message_of_def
        sample_env_store_fails_def sample_env_def sample_image_def sample_settings_def)
  from m[where s = sample_settings and env = sample_env_fetch_fails, THEN conjunct2, THEN conjunct2, THEN conjunct1] sample_fetch_fails
  have "fst (process_POST sample_env_fetch_fails (Inr ?rq))
      = Inr \<lparr>status_code = 500,
             body = ImageFileJson
               (failed_record sample_env_fetch_fails sample_image
                  (Error ''Failed to fetch blob: Not Found'') (metadata sample_image))\<rparr>"
    by blast
  then have f: "fst (process_POST sample_env_fetch_fails (Inr ?rq))
       = Inr \<lparr>status_code = 500,
              body = ImageFileJson
                (sample_image
                   \<lparr> status := failed,
                     errorMessage := Some ''Failed to fetch blob: Not Found'',
                     processingTimeMs := Some 250 \<rparr>)\<rparr>"
    by (simp add: failed_record_def error_message_of_def
        sample_env_fetch_fails_def sample_env_def sample_image_def)
  from m[where s = "?a" and env = sample_env, THEN conjunct2, THEN conjunct2, THEN conjunct2, THEN conjunct1] sample_fetch n u
  have "fst (process_POST sample_env (Inr \<lparr>imageFile = Some sample_image, settings = Some ?a\<rparr>))
      = Inr \<lparr>status_code = 500,
             body = ImageFileJson
               (failed_record sample_env sample_image
                  (Error (unsupported_format_message (effective_targetFormat sample_image ?a)))
                  (metadata sample_image))\<rparr>"
    by blast
  then have a: "fst (process_POST sample_env
            (Inr \<lparr>imageFile = Some sample_image, settings = Some ?a\<rparr>))
       = Inr \<lparr>status_code = 500,
              body = ImageFileJson
                (sample_image
                   \<lparr> status := failed,
                     errorMessage := Some ''Unsupported target format for MVP: avif. Only jpeg and png are supported initially.'',
                     processingTimeMs := Some 250 \<rparr>)\<rparr>"
    by (simp add: failed_record_def error_message_of_def unsupported_format_message_def
        effective_targetFormat_def format_name_def template_string_def
        sample_env_def sample_image_def)
  have jf: "fetchBlob sample_env_strict_jpeg (the (blobUrl sample_image)) = Inr (replicate 1000 0)"
    by (simp add: fetchBlob_def sample_env_strict_jpeg_def sample_env_def)
  have jn: "sharp sample_env_strict_jpeg (replicate 1000 0) = None"
    by (simp add: sample_env_strict_jpeg_def sample_env_def)
  have jt: "effective_targetFormat sample_image sample_settings_jpeg_0 = Some ''jpeg''"
    by (simp add: effective_targetFormat_def format_name_def sample_settings_jpeg_0_def
        sample_settings_def)
  have jq: "sharp_jpeg sample_env_strict_jpeg (quality sample_settings_jpeg_0)
      = Some (Error ''Expected integer between 1 and 100 for quality'')"
    by (simp add: sample_env_strict_jpeg_def sample_env_def sample_settings_jpeg_0_def
        sample_settings_def)
  from m[where s = sample_settings_jpeg_0 and env = sample_env_strict_jpeg, THEN conjunct2, THEN conjunct2, THEN conjunct2, THEN conjunct2, THEN conjunct2, THEN conjunct2, THEN conjunct1] jf jn jt jq
  have "fst (process_POST sample_env_strict_jpeg
            (Inr \<lparr>imageFile = Some sample_image, settings = Some sample_settings_jpeg_0\<rparr>))
      = Inr \<lparr>status_code = 500,
             body = ImageFileJson
               (failed_record sample_env_strict_jpeg sample_image
                  (Error ''Expected integer between 1 and 100 for quality'')
                  (metadata sample_image))\<rparr>"
    by blast
  then have j: "fst (process_POST sample_env_strict_jpeg
            (Inr \<lparr>imageFile = Some sample_image, settings = Some sample_settings_jpeg_0\<rparr>))
       = Inr \<lparr>status_code = 500,
              body = ImageFileJson
                (sample_image
                   \<lparr> status := failed,
                     errorMessage := Some ''Expected integer between 1 and 100 for quality'',
                     processingTimeMs := Some 250 \<rparr>)\<rparr>"
    by (simp add: failed_record_def error_message_of_def
        sample_env_strict_jpeg_def sample_env_def sample_image_def)
  from sample_checked(3) sample_encode_fails[of ?inst] e s o sample_fetch_fails f a jt jq j
  show ?thesis by simp
qed

text \<open>
  The fetch and the resolution of the format are not the only failures that leave the
  metadata unchanged. Here the blob is fetched, the format resolves to \<^verbatim>\<open>jpeg\<close>, which is
  supported, and the \<^verbatim>\<open>jpeg\<close> call of line 51 refuses the quality 0: the failed record
  keeps the title of the input record, not the title of the request.
\<close>

theorem failed_record_metadata_counterexample:
  "fetchBlob sample_env_strict_jpeg (the (blobUrl sample_image)) = Inr (replicate 1000 0)
   \<and> effective_targetFormat sample_image sample_settings_jpeg_0 = Some ''jpeg''
   \<and> supported (effective_targetFormat sample_image sample_settings_jpeg_0)
   \<and> process_POST sample_env_strict_jpeg
         (Inr \<lparr>imageFile = Some sample_image, settings = Some sample_settings_jpeg_0\<rparr>)
       = (Inr \<lparr>status_code = 500,
                body = ImageFileJson
                  (sample_image
                     \<lparr> status := failed,
                       errorMessage := Some ''Expected integer between 1 and 100 for quality'',
                       processingTimeMs := Some 250 \<rparr>)\<rparr>,
          [CallFetch ''https://store/uploads/a1.png'', CallSharp (replicate 1000 0),
           CallJpeg 0])
   \<and> metadata (sample_image
                 \<lparr> status := failed,
                   errorMessage := Some ''Expected integer between 1 and 100 for quality'',
                   processingTimeMs := Some 250 \<rparr>) = metadata sample_image
   \<and> title (metadata sample_image) = Some ''Old''
   \<and> title (settings_metadata sample_settings_jpeg_0) = Some ''Sunset''"
proof -
  have t: "effective_targetFormat sample_image sample_settings_jpeg_0 = Some ''jpeg''"
    by (simp add: effective_targetFormat_def format_name_def sample_settings_jpeg_0_def
        sample_settings_def)
  have f: "fetchBlob sample_env_strict_jpeg (the (blobUrl sample_image)) = Inr (replicate 1000 0)"
    by (simp add: fetchBlob_def sample_env_strict_jpeg_def sample_env_def)
  have u: "supported (Some ''jpeg'')"
    by (simp add: supported_def MVP_PROCESS_FORMATS_def)
  have o: "title (metadata sample_image) = Some ''Old''"
    "title (settings_metadata sample_settings_jpeg_0) = Some ''Sunset''"
    by (simp_all add: sample_image_def sample_settings_jpeg_0_def sample_settings_def)
  from t f u o sample_strict_jpeg_fails show ?thesis by simp
qed

end
